theory Spec2Isabelle
  imports Complex_Main "HOL-Library.AList"
begin

section \<open>Python values\<close>

text \<open>
  Actions, decisions and parsed model replies are plain Python values built from
  \<^verbatim>\<open>None\<close>, booleans, numbers, strings, lists and dictionaries with string keys.
  A dictionary is an association list read through \<open>map_of\<close>. Strings are byte
  strings (UTF-8); the Chinese messages of the source are written out byte by byte.
\<close>

datatype json =
    JNone
  | JBool bool
  | JInt int
  | JFloat real
  | JStr string
  | JList "json list"
  | JDict "(string \<times> json) list"

text \<open>\<^verbatim>\<open>k in d\<close> for a dictionary \<open>d\<close>.\<close>

definition has_key :: "(string \<times> json) list \<Rightarrow> string \<Rightarrow> bool" where
  "has_key d k = (k \<in> set (map fst d))"

text \<open>\<^verbatim>\<open>d.get(k)\<close>: the value stored under \<open>k\<close>, \<^verbatim>\<open>None\<close> when the key is absent.\<close>

definition dict_get :: "(string \<times> json) list \<Rightarrow> string \<Rightarrow> json" where
  "dict_get d k = (case map_of d k of None \<Rightarrow> JNone | Some v \<Rightarrow> v)"

text \<open>\<^verbatim>\<open>d.get(k, dflt)\<close>.\<close>

definition dict_get_default :: "(string \<times> json) list \<Rightarrow> string \<Rightarrow> json \<Rightarrow> json" where
  "dict_get_default d k dflt = (case map_of d k of None \<Rightarrow> dflt | Some v \<Rightarrow> v)"

text \<open>Python truthiness, as tested by \<^verbatim>\<open>not v\<close>.\<close>

fun truthy :: "json \<Rightarrow> bool" where
  "truthy JNone = False"
| "truthy (JBool b) = b"
| "truthy (JInt n) = (n \<noteq> 0)"
| "truthy (JFloat x) = (x \<noteq> 0)"
| "truthy (JStr s) = (s \<noteq> [])"
| "truthy (JList xs) = (xs \<noteq> [])"
| "truthy (JDict d) = (d \<noteq> [])"

text \<open>Lists and dictionaries cannot be dictionary keys: looking one up raises \<^verbatim>\<open>TypeError\<close>.\<close>

fun hashable :: "json \<Rightarrow> bool" where
  "hashable (JList xs) = False"
| "hashable (JDict d) = False"
| "hashable v = True"

text \<open>Exceptions derived from \<^verbatim>\<open>Exception\<close>, with their message.\<close>

datatype exn = Exception string

fun str_exn :: "exn \<Rightarrow> string" where
  "str_exn (Exception msg) = msg"

subsection \<open>Messages of the source\<close>

definition msg_invalid_format :: string where
  "msg_invalid_format =
     [CHR 0xE5, CHR 0x8A, CHR 0xA8, CHR 0xE4, CHR 0xBD, CHR 0x9C, CHR 0xE6, CHR 0xA0, CHR
     0xBC, CHR 0xE5, CHR 0xBC, CHR 0x8F, CHR 0xE6, CHR 0x97, CHR 0xA0, CHR 0xE6, CHR
     0x95, CHR 0x88]"

definition msg_bad_json :: string where
  "msg_bad_json =
     [CHR 0xE6, CHR 0x97, CHR 0xA0, CHR 0xE6, CHR 0xB3, CHR 0x95, CHR 0xE8, CHR 0xA7, CHR
     0xA3, CHR 0xE6, CHR 0x9E, CHR 0x90, CHR 0xE5, CHR 0x9B, CHR 0x9E, CHR 0xE5, CHR
     0xA4, CHR 0x8D, CHR 0xE4, CHR 0xB8, CHR 0xBA, CHR 0xE6, CHR 0x9C, CHR 0x89, CHR
     0xE6, CHR 0x95, CHR 0x88] @ ''JSON''"

definition msg_no_json :: string where
  "msg_no_json =
     [CHR 0xE5, CHR 0x93, CHR 0x8D, CHR 0xE5, CHR 0xBA, CHR 0x94, CHR 0xE4, CHR 0xB8, CHR
     0xAD, CHR 0xE6, CHR 0x9C, CHR 0xAA, CHR 0xE6, CHR 0x89, CHR 0xBE, CHR 0xE5, CHR
     0x88, CHR 0xB0, CHR 0xE6, CHR 0x9C, CHR 0x89, CHR 0xE6, CHR 0x95, CHR 0x88, CHR
     0xE7, CHR 0x9A, CHR 0x84, CHR 0xE5, CHR 0x8A, CHR 0xA8, CHR 0xE4, CHR 0xBD, CHR
     0x9C] @ ''JSON''"

definition msg_parse_error :: string where
  "msg_parse_error =
     [CHR 0xE8, CHR 0xA7, CHR 0xA3, CHR 0xE6, CHR 0x9E, CHR 0x90, CHR 0xE9, CHR 0x94, CHR
     0x99, CHR 0xE8, CHR 0xAF, CHR 0xAF] @ '': ''"

definition msg_state_failed :: string where
  "msg_state_failed =
     [CHR 0xE7, CHR 0x8A, CHR 0xB6, CHR 0xE6, CHR 0x80, CHR 0x81, CHR 0xE8, CHR 0x8E, CHR
     0xB7, CHR 0xE5, CHR 0x8F, CHR 0x96, CHR 0xE5, CHR 0xA4, CHR 0xB1, CHR 0xE8, CHR
     0xB4, CHR 0xA5] @ '': ''"

definition msg_unknown_error :: string where
  "msg_unknown_error =
     [CHR 0xE6, CHR 0x9C, CHR 0xAA, CHR 0xE7, CHR 0x9F, CHR 0xA5, CHR 0xE9, CHR 0x94, CHR
     0x99, CHR 0xE8, CHR 0xAF, CHR 0xAF]"

definition msg_decide_error :: string where
  "msg_decide_error =
     [CHR 0xE5, CHR 0x86, CHR 0xB3, CHR 0xE7, CHR 0xAD, CHR 0x96, CHR 0xE8, CHR 0xBF, CHR
     0x87, CHR 0xE7, CHR 0xA8, CHR 0x8B, CHR 0xE9, CHR 0x94, CHR 0x99, CHR 0xE8, CHR
     0xAF, CHR 0xAF] @ '': ''"

definition msg_task_done :: string where
  "msg_task_done =
     [CHR 0xE4, CHR 0xBB, CHR 0xBB, CHR 0xE5, CHR 0x8A, CHR 0xA1, CHR 0xE5, CHR 0xAE, CHR
     0x8C, CHR 0xE6, CHR 0x88, CHR 0x90]"

definition msg_exec_failed :: string where
  "msg_exec_failed =
     [CHR 0xE6, CHR 0x89, CHR 0xA7, CHR 0xE8, CHR 0xA1, CHR 0x8C, CHR 0xE5, CHR 0xA4, CHR
     0xB1, CHR 0xE8, CHR 0xB4, CHR 0xA5]"

definition msg_rejected :: string where
  "msg_rejected =
     [CHR 0xE5, CHR 0x8A, CHR 0xA8, CHR 0xE4, CHR 0xBD, CHR 0x9C, CHR 0xE8, CHR 0xA2, CHR
     0xAB, CHR 0xE4, CHR 0xB8, CHR 0xAD, CHR 0xE9, CHR 0x97, CHR 0xB4, CHR 0xE4, CHR
     0xBB, CHR 0xB6, CHR 0xE6, CHR 0x8B, CHR 0x92, CHR 0xE7, CHR 0xBB, CHR 0x9D]"

definition msg_rejected_before_execution :: string where
  "msg_rejected_before_execution =
     [CHR 0xE5, CHR 0x8A, CHR 0xA8, CHR 0xE4, CHR 0xBD, CHR 0x9C, CHR 0xE5, CHR 0x9C, CHR
     0xA8, CHR 0xE6, CHR 0x89, CHR 0xA7, CHR 0xE8, CHR 0xA1, CHR 0x8C, CHR 0xE5, CHR
     0x89, CHR 0x8D, CHR 0xE8, CHR 0xA2, CHR 0xAB, CHR 0xE4, CHR 0xB8, CHR 0xAD, CHR
     0xE9, CHR 0x97, CHR 0xB4, CHR 0xE4, CHR 0xBB, CHR 0xB6, CHR 0xE6, CHR 0x8B, CHR
     0x92, CHR 0xE7, CHR 0xBB, CHR 0x9D]"

definition msg_action_error :: string where
  "msg_action_error =
     [CHR 0xE5, CHR 0xA4, CHR 0x84, CHR 0xE7, CHR 0x90, CHR 0x86, CHR 0xE5, CHR 0x8D, CHR
     0x95, CHR 0xE4, CHR 0xB8, CHR 0xAA, CHR 0xE5, CHR 0x8A, CHR 0xA8, CHR 0xE4, CHR
     0xBD, CHR 0x9C, CHR 0xE6, CHR 0x97, CHR 0xB6, CHR 0xE5, CHR 0x87, CHR 0xBA, CHR
     0xE9, CHR 0x94, CHR 0x99] @ '': ''"

definition msg_step_error :: string where
  "msg_step_error =
     [CHR 0xE6, CHR 0xAD, CHR 0xA5, CHR 0xE9, CHR 0xAA, CHR 0xA4, CHR 0xE6, CHR 0x89, CHR
     0xA7, CHR 0xE8, CHR 0xA1, CHR 0x8C, CHR 0xE5, CHR 0x87, CHR 0xBA, CHR 0xE9, CHR
     0x94, CHR 0x99] @ '': ''"
section \<open>Data model\<close>

text \<open>
  The result dictionary built by \<^verbatim>\<open>UIAgent.step\<close>: \<^verbatim>\<open>success\<close>, \<^verbatim>\<open>timestamp\<close>, and either
  \<^verbatim>\<open>error\<close> (an executed action) or \<^verbatim>\<open>message\<close> (a stop action).
\<close>

record result =
  r_success :: bool
  r_timestamp :: real
  r_error :: "string option"
  r_message :: "json option"

text \<open>The state dictionary returned by \<^verbatim>\<open>ScreenCapture.process\<close>; an absent key is \<open>None\<close>.\<close>

record state =
  s_image :: "string option"
  s_screen_width :: "int option"
  s_screen_height :: "int option"
  s_timestamp :: "real option"
  s_cursor_position :: "(int \<times> int) option"
  s_error :: "string option"

text \<open>A state dictionary is falsy when it has no key.\<close>

definition state_truthy :: "state \<Rightarrow> bool" where
  "state_truthy s =
     (s_image s \<noteq> None \<or> s_screen_width s \<noteq> None \<or> s_screen_height s \<noteq> None
      \<or> s_timestamp s \<noteq> None \<or> s_cursor_position s \<noteq> None \<or> s_error s \<noteq> None)"

record snapshot =
  snap_screen_width :: int
  snap_screen_height :: int
  snap_cursor_position :: "int \<times> int"

text \<open>The record that \<^verbatim>\<open>StateTrackingMiddleware\<close> keeps under \<^verbatim>\<open>context["_current_action"]\<close>.\<close>

record action_record =
  ar_action :: json
  ar_timestamp :: real
  ar_state_snapshot :: "snapshot option"
  ar_start_time :: "real option"

text \<open>
  An element of \<^verbatim>\<open>context["history"]\<close> is either the \<^verbatim>\<open>history_item\<close> of \<^verbatim>\<open>UIAgent.step\<close>
  (action, result, timestamp) or the action record of the tracking middleware, completed
  with its result and, when measured, its duration.
\<close>

datatype history_entry =
    HistoryItem json result real
  | ActionRecord action_record result "real option"

record type_counts =
  tc_total :: nat
  tc_success :: nat
  tc_fail :: nat

record stats =
  st_total_actions :: nat
  st_successful_actions :: nat
  st_failed_actions :: nat
  st_action_types :: "(json \<times> type_counts) list"
  st_start_time :: real
  st_runtime :: real

text \<open>The context dictionary of \<^verbatim>\<open>UIAgent\<close>; keys that may be absent are options.\<close>

record ctx =
  c_history :: "history_entry list"
  c_start_time :: real
  c_iteration :: int
  c_prompt_name :: "string option"
  c_task :: "string option"
  c_current_time :: "real option"
  c_current_action :: "action_record option"
  c_stats :: "stats option"

section \<open>The world: clock and log\<close>

text \<open>
  Everything outside the values handed from call to call is the world: the clock read by
  \<^verbatim>\<open>time.time()\<close>, the warnings and errors written through the logger, and the private
  attributes of collaborators and middlewares (fields of an extension of this record).
\<close>

datatype level = WARNING | ERROR

record world =
  now :: real
  log :: "(level \<times> string) list"

definition logger :: "level \<Rightarrow> string \<Rightarrow> 'x world_scheme \<Rightarrow> 'x world_scheme" where
  "logger lv msg w = w\<lparr>log := log w @ [(lv, msg)]\<rparr>"

text \<open>\<^verbatim>\<open>time.sleep(d)\<close>.\<close>

definition sleep :: "real \<Rightarrow> 'x world_scheme \<Rightarrow> 'x world_scheme" where
  "sleep d w = w\<lparr>now := now w + d\<rparr>"

section \<open>Middleware and MiddlewareManager (base/middleware.py)\<close>

text \<open>
  A middleware is its six phase methods. A phase call either returns its outputs
  (\<open>Inr\<close>) or raises (\<open>Inl\<close>), and may change the world. The context is one
  dictionary, handed to every call by reference: what a call has written into it before
  raising stays written, so a call that raises leaves the context behind as it is at that
  moment. A rejected action is the value \<open>JNone\<close>.
\<close>

record 'w middleware =
  mw_name :: string
  mw_before_perception :: "ctx \<Rightarrow> 'w \<Rightarrow> (exn \<times> ctx + ctx) \<times> 'w"
  mw_after_perception :: "state \<Rightarrow> ctx \<Rightarrow> 'w \<Rightarrow> (exn \<times> ctx + state \<times> ctx) \<times> 'w"
  mw_before_decision :: "state \<Rightarrow> ctx \<Rightarrow> 'w \<Rightarrow> (exn \<times> ctx + state \<times> ctx) \<times> 'w"
  mw_after_decision ::
    "json \<Rightarrow> state \<Rightarrow> ctx \<Rightarrow> 'w \<Rightarrow> (exn \<times> ctx + json \<times> state \<times> ctx) \<times> 'w"
  mw_before_execution :: "json \<Rightarrow> ctx \<Rightarrow> 'w \<Rightarrow> (exn \<times> ctx + json \<times> ctx) \<times> 'w"
  mw_after_execution ::
    "result \<Rightarrow> json \<Rightarrow> ctx \<Rightarrow> 'w \<Rightarrow> (exn \<times> ctx + result \<times> json \<times> ctx) \<times> 'w"

text \<open>The base class \<^verbatim>\<open>Middleware\<close>: every phase passes its arguments through.\<close>

definition Middleware :: "string \<Rightarrow> 'w middleware" where
  "Middleware name =
     \<lparr>mw_name = name,
      mw_before_perception = (\<lambda>ctx w. (Inr ctx, w)),
      mw_after_perception = (\<lambda>state ctx w. (Inr (state, ctx), w)),
      mw_before_decision = (\<lambda>state ctx w. (Inr (state, ctx), w)),
      mw_after_decision = (\<lambda>action state ctx w. (Inr (action, state, ctx), w)),
      mw_before_execution = (\<lambda>action ctx w. (Inr (action, ctx), w)),
      mw_after_execution = (\<lambda>result action ctx w. (Inr (result, action, ctx), w))\<rparr>"

definition error_in_middleware :: "'w middleware \<Rightarrow> string \<Rightarrow> exn \<Rightarrow> string" where
  "error_in_middleware middleware phase e =
     ''Error in middleware '' @ mw_name middleware @ '' '' @ phase @ '': '' @ str_exn e"

definition rejected_by :: "'w middleware \<Rightarrow> string" where
  "rejected_by middleware = ''Action rejected by middleware: '' @ mw_name middleware"

fun process_before_perception ::
  "('x world_scheme) middleware list \<Rightarrow> ctx \<Rightarrow> 'x world_scheme
     \<Rightarrow> ctx \<times> 'x world_scheme" where
  "process_before_perception [] ctx w = (ctx, w)"
| "process_before_perception (middleware # rest) ctx w =
     (case mw_before_perception middleware ctx w of
        (Inr ctx', w') \<Rightarrow> process_before_perception rest ctx' w'
      | (Inl (e, ctx'), w') \<Rightarrow>
          process_before_perception rest ctx'
            (logger ERROR (error_in_middleware middleware ''process_before_perception'' e) w'))"

fun process_after_perception ::
  "('x world_scheme) middleware list \<Rightarrow> state \<Rightarrow> ctx \<Rightarrow> 'x world_scheme
     \<Rightarrow> (state \<times> ctx) \<times> 'x world_scheme" where
  "process_after_perception [] state ctx w = ((state, ctx), w)"
| "process_after_perception (middleware # rest) state ctx w =
     (case mw_after_perception middleware state ctx w of
        (Inr (state', ctx'), w') \<Rightarrow> process_after_perception rest state' ctx' w'
      | (Inl (e, ctx'), w') \<Rightarrow>
          process_after_perception rest state ctx'
            (logger ERROR (error_in_middleware middleware ''process_after_perception'' e) w'))"

fun process_before_decision ::
  "('x world_scheme) middleware list \<Rightarrow> state \<Rightarrow> ctx \<Rightarrow> 'x world_scheme
     \<Rightarrow> (state \<times> ctx) \<times> 'x world_scheme" where
  "process_before_decision [] state ctx w = ((state, ctx), w)"
| "process_before_decision (middleware # rest) state ctx w =
     (case mw_before_decision middleware state ctx w of
        (Inr (state', ctx'), w') \<Rightarrow> process_before_decision rest state' ctx' w'
      | (Inl (e, ctx'), w') \<Rightarrow>
          process_before_decision rest state ctx'
            (logger ERROR (error_in_middleware middleware ''process_before_decision'' e) w'))"

text \<open>
  The two phases with rejection: the loop breaks as soon as a middleware has returned
  \<^verbatim>\<open>None\<close> as the action.
\<close>

fun process_after_decision ::
  "('x world_scheme) middleware list \<Rightarrow> json \<Rightarrow> state \<Rightarrow> ctx \<Rightarrow> 'x world_scheme
     \<Rightarrow> (json \<times> state \<times> ctx) \<times> 'x world_scheme" where
  "process_after_decision [] action state ctx w = ((action, state, ctx), w)"
| "process_after_decision (middleware # rest) action state ctx w =
     (case mw_after_decision middleware action state ctx w of
        (Inr (action', state', ctx'), w') \<Rightarrow>
          if action' = JNone
          then ((action', state', ctx'), logger WARNING (rejected_by middleware) w')
          else process_after_decision rest action' state' ctx' w'
      | (Inl (e, ctx'), w') \<Rightarrow>
          process_after_decision rest action state ctx'
            (logger ERROR (error_in_middleware middleware ''process_after_decision'' e) w'))"

fun process_before_execution ::
  "('x world_scheme) middleware list \<Rightarrow> json \<Rightarrow> ctx \<Rightarrow> 'x world_scheme
     \<Rightarrow> (json \<times> ctx) \<times> 'x world_scheme" where
  "process_before_execution [] action ctx w = ((action, ctx), w)"
| "process_before_execution (middleware # rest) action ctx w =
     (case mw_before_execution middleware action ctx w of
        (Inr (action', ctx'), w') \<Rightarrow>
          if action' = JNone
          then ((action', ctx'), logger WARNING (rejected_by middleware) w')
          else process_before_execution rest action' ctx' w'
      | (Inl (e, ctx'), w') \<Rightarrow>
          process_before_execution rest action ctx'
            (logger ERROR (error_in_middleware middleware ''process_before_execution'' e) w'))"

fun process_after_execution ::
  "('x world_scheme) middleware list \<Rightarrow> result \<Rightarrow> json \<Rightarrow> ctx \<Rightarrow> 'x world_scheme
     \<Rightarrow> (result \<times> json \<times> ctx) \<times> 'x world_scheme" where
  "process_after_execution [] result action ctx w = ((result, action, ctx), w)"
| "process_after_execution (middleware # rest) result action ctx w =
     (case mw_after_execution middleware result action ctx w of
        (Inr (result', action', ctx'), w') \<Rightarrow>
          process_after_execution rest result' action' ctx' w'
      | (Inl (e, ctx'), w') \<Rightarrow>
          process_after_execution rest result action ctx'
            (logger ERROR (error_in_middleware middleware ''process_after_execution'' e) w'))"

section \<open>InputController.validate (core/input\_controller.py)\<close>

fun validate :: "json \<Rightarrow> bool" where
  "validate (JDict action) =
     (let action_type = dict_get action ''type'' in
      if \<not> truthy action_type then False
      else if action_type = JStr ''move'' then
        (if \<not> has_key action ''x'' \<or> \<not> has_key action ''y'' then False else True)
      else if action_type = JStr ''click'' then
        (if dict_get action ''x'' \<noteq> JNone \<and> dict_get action ''y'' \<noteq> JNone then True
         else if dict_get action ''x'' = JNone \<and> dict_get action ''y'' = JNone then True
         else False)
      else if action_type = JStr ''type'' then
        (if \<not> has_key action ''text'' then False else True)
      else if action_type = JStr ''key'' then
        (if \<not> has_key action ''keys'' then False else True)
      else if action_type = JStr ''scroll'' then
        (if \<not> has_key action ''direction''
            \<and> (\<not> has_key action ''x'' \<or> \<not> has_key action ''y'') then False else True)
      else if action_type = JStr ''stop'' then True
      else False)"
| "validate _ = False"

text \<open>
  The validation rules as the specification words them, for comparison with
  \<open>validate\<close>: \<^verbatim>\<open>move\<close> requires numeric \<^verbatim>\<open>x\<close> and \<^verbatim>\<open>y\<close>; \<^verbatim>\<open>key\<close> requires \<^verbatim>\<open>keys\<close>
  present and, after normalizing a bare string to a one-element list, of length at
  least 1. A coordinate of \<^verbatim>\<open>click\<close> counts as present when it is not \<^verbatim>\<open>None\<close>.
\<close>

fun is_number :: "json \<Rightarrow> bool" where
  "is_number (JInt n) = True"
| "is_number (JFloat x) = True"
| "is_number _ = False"

fun normalize_keys :: "json \<Rightarrow> json list" where
  "normalize_keys (JStr s) = [JStr s]"
| "normalize_keys (JList ks) = ks"
| "normalize_keys _ = []"

definition validate_spec :: "json \<Rightarrow> bool" where
  "validate_spec a =
     (case a of
        JDict d \<Rightarrow>
          (let t = dict_get d ''type'' in
           if t = JStr ''move'' then is_number (dict_get d ''x'') \<and> is_number (dict_get d ''y'')
           else if t = JStr ''click'' then
             (dict_get d ''x'' \<noteq> JNone \<and> dict_get d ''y'' \<noteq> JNone)
             \<or> (dict_get d ''x'' = JNone \<and> dict_get d ''y'' = JNone)
           else if t = JStr ''type'' then has_key d ''text''
           else if t = JStr ''key'' then
             has_key d ''keys'' \<and> 1 \<le> length (normalize_keys (dict_get d ''keys''))
           else if t = JStr ''scroll'' then
             has_key d ''direction'' \<or> (has_key d ''x'' \<and> has_key d ''y'')
           else if t = JStr ''stop'' then True
           else False)
      | _ \<Rightarrow> False)"

section \<open>LLMDecision (core/llm\_decision.py)\<close>

definition stop_action :: "json \<Rightarrow> json" where
  "stop_action reason = JDict [(''type'', JStr ''stop''), (''reason'', reason)]"

text \<open>
  \<^verbatim>\<open>_parse_response\<close>. The regular-expression search for a fenced block and
  \<^verbatim>\<open>json.loads\<close> are library calls and are parameters: \<open>re_search\<close> returns the first
  capture group of the first match, \<open>json_loads\<close> the decoded value or the exception raised.
\<close>

datatype loads_result = Loaded json | JSONDecodeError string | LoadsException string

definition parse_response ::
  "(string \<Rightarrow> string option) \<Rightarrow> (string \<Rightarrow> loads_result) \<Rightarrow> string \<Rightarrow> json" where
  "parse_response re_search json_loads response =
     (if take 3 response = ''API'' then stop_action (JStr response)
      else
        case re_search response of
          Some json_str \<Rightarrow>
            (case json_loads json_str of
               Loaded action \<Rightarrow>
                 (case action of
                    JDict d \<Rightarrow>
                      if \<not> has_key d ''type'' then stop_action (JStr msg_invalid_format)
                      else action
                  | JList xs \<Rightarrow>
                      (case xs of
                         [] \<Rightarrow> stop_action (JStr msg_invalid_format)
                       | JDict d # _ \<Rightarrow>
                           if \<not> has_key d ''type'' then stop_action (JStr msg_invalid_format)
                           else action
                       | _ \<Rightarrow> stop_action (JStr msg_invalid_format))
                  | _ \<Rightarrow> stop_action (JStr msg_invalid_format))
             | JSONDecodeError e \<Rightarrow> stop_action (JStr msg_bad_json)
             | LoadsException e \<Rightarrow> stop_action (JStr (msg_parse_error @ e)))
        | None \<Rightarrow> stop_action (JStr msg_no_json))"

text \<open>
  \<^verbatim>\<open>decide\<close>. Looking up and formatting the prompt and calling the model are one
  parameter \<open>call_api\<close>, which returns the reply or raises.
\<close>

definition decide ::
  "(state \<Rightarrow> ctx \<Rightarrow> 'w \<Rightarrow> (exn + string) \<times> 'w)
     \<Rightarrow> (string \<Rightarrow> string option) \<Rightarrow> (string \<Rightarrow> loads_result)
     \<Rightarrow> state \<Rightarrow> ctx \<Rightarrow> 'w \<Rightarrow> (exn \<times> ctx + json \<times> ctx) \<times> 'w" where
  "decide call_api re_search json_loads state ctx w =
     (if \<not> state_truthy state \<or> s_error state \<noteq> None then
        (Inr (stop_action (JStr (msg_state_failed @
                (case s_error state of Some e \<Rightarrow> e | None \<Rightarrow> msg_unknown_error))), ctx), w)
      else
        case call_api state ctx w of
          (Inr full_response, w') \<Rightarrow>
            (Inr (parse_response re_search json_loads full_response, ctx), w')
        | (Inl e, w') \<Rightarrow> (Inr (stop_action (JStr (msg_decide_error @ str_exn e)), ctx), w'))"

section \<open>UIAgent (core/ui\_agent.py)\<close>

text \<open>
  The collaborators and the configuration of an agent. The brain is handed the context by
  reference, like a middleware, and returns it with its decision or leaves it behind when
  it raises.
\<close>

record 'w agent =
  perception_process :: "'w \<Rightarrow> (exn + state) \<times> 'w"
  brain_decide :: "state \<Rightarrow> ctx \<Rightarrow> 'w \<Rightarrow> (exn \<times> ctx + json \<times> ctx) \<times> 'w"
  brain_set_prompt :: "string \<Rightarrow> ctx \<Rightarrow> 'w \<Rightarrow> (bool \<times> ctx) \<times> 'w"
  executor_execute :: "json \<Rightarrow> 'w \<Rightarrow> (exn + bool) \<times> 'w"
  middlewares :: "'w middleware list"
  max_iterations :: int
  iteration_delay :: real
  auto_prompt :: bool
  default_prompt_name :: string
  task_prompt_mapping :: "(string \<times> string list) list"

text \<open>\<^verbatim>\<open>should_stop\<close>.\<close>

fun should_stop :: "json \<Rightarrow> bool" where
  "should_stop (JDict action) = (dict_get action ''type'' = JStr ''stop'')"
| "should_stop (JList action) =
     list_ex (\<lambda>item. case item of JDict d \<Rightarrow> dict_get d ''type'' = JStr ''stop'' | _ \<Rightarrow> False)
       action"
| "should_stop _ = False"

text \<open>\<^verbatim>\<open>actions = action if isinstance(action, list) else [action]\<close>.\<close>

definition normalize :: "json \<Rightarrow> json list" where
  "normalize action = (case action of JList xs \<Rightarrow> xs | _ \<Rightarrow> [action])"

text \<open>
  The loop \<^verbatim>\<open>for act in actions\<close> of \<^verbatim>\<open>step\<close>. Besides the values of the source it
  carries \<open>calls\<close>, the time and argument of every \<^verbatim>\<open>executor.execute\<close> invocation so
  far, so that what was and was not executed can be stated. An exception inside the body
  is logged and the loop goes on with the next element.
\<close>

type_synonym calls = "(real \<times> json) list"

fun run_actions ::
  "('x world_scheme) agent \<Rightarrow> json list \<Rightarrow> state \<Rightarrow> ctx \<Rightarrow> bool \<Rightarrow> calls \<Rightarrow> 'x world_scheme
     \<Rightarrow> bool \<times> ctx \<times> calls \<times> 'x world_scheme" where
  "run_actions ag [] state ctx final_result calls w = (final_result, ctx, calls, w)"
| "run_actions ag (act # acts) state ctx final_result calls w =
     (case process_after_decision (middlewares ag) act state ctx w of
        ((current_action, state1, ctx1), w1) \<Rightarrow>
          if current_action = JNone then
            run_actions ag acts state1 ctx1 final_result calls (logger WARNING msg_rejected w1)
          else if should_stop current_action then
            (case current_action of
               JDict d \<Rightarrow>
                 (let result = \<lparr>r_success = True, r_timestamp = now w1, r_error = None,
                                 r_message = Some (dict_get_default d ''reason'' (JStr msg_task_done))\<rparr>
                  in case process_after_execution (middlewares ag) result current_action ctx1 w1 of
                       ((result2, current_action2, ctx2), w2) \<Rightarrow>
                         (True,
                          ctx2\<lparr>c_history := c_history ctx2
                                  @ [HistoryItem current_action2 result2 (r_timestamp result2)]\<rparr>,
                          calls, w2))
             | _ \<Rightarrow>
                 run_actions ag acts state1 ctx1 final_result calls
                   (logger ERROR (msg_action_error @ ''no attribute get'') w1))
          else
            (case process_before_execution (middlewares ag) current_action ctx1 w1 of
               ((current_action2, ctx2), w2) \<Rightarrow>
                 if current_action2 = JNone then
                   run_actions ag acts state1 ctx2 final_result calls
                     (logger WARNING msg_rejected_before_execution w2)
                 else
                   (case executor_execute ag current_action2 w2 of
                      (Inl e, w3) \<Rightarrow>
                        run_actions ag acts state1 ctx2 final_result
                          (calls @ [(now w2, current_action2)])
                          (logger ERROR (msg_action_error @ str_exn e) w3)
                    | (Inr success, w3) \<Rightarrow>
                        (let result = \<lparr>r_success = success, r_timestamp = now w3,
                                        r_error = (if success then None else Some msg_exec_failed),
                                        r_message = None\<rparr>
                         in case process_after_execution (middlewares ag) result
                                   current_action2 ctx2 w3 of
                              ((result3, current_action3, ctx3), w4) \<Rightarrow>
                                run_actions ag acts state1
                                  (ctx3\<lparr>c_history := c_history ctx3
                                     @ [HistoryItem current_action3 result3 (r_timestamp result3)]\<rparr>)
                                  (if success then True else final_result)
                                  (calls @ [(now w2, current_action2)]) w4))))"

text \<open>\<^verbatim>\<open>step\<close>: one pass of perception, decision and execution.\<close>

definition step ::
  "('x world_scheme) agent \<Rightarrow> ctx \<Rightarrow> calls \<Rightarrow> 'x world_scheme
     \<Rightarrow> bool \<times> ctx \<times> calls \<times> 'x world_scheme" where
  "step ag ctx calls w =
     (case process_before_perception (middlewares ag) ctx w of
        (ctx1, w1) \<Rightarrow>
          (case perception_process ag w1 of
             (Inl e, w2) \<Rightarrow> (False, ctx1, calls, logger ERROR (msg_step_error @ str_exn e) w2)
           | (Inr state, w2) \<Rightarrow>
               (case process_after_perception (middlewares ag) state ctx1 w2 of
                  ((state3, ctx3), w3) \<Rightarrow>
                    (case process_before_decision (middlewares ag) state3 ctx3 w3 of
                       ((state4, ctx4), w4) \<Rightarrow>
                         (case brain_decide ag state4 ctx4 w4 of
                            (Inl (e, ctx5), w5) \<Rightarrow>
                              (False, ctx5, calls, logger ERROR (msg_step_error @ str_exn e) w5)
                          | (Inr (action, ctx5), w5) \<Rightarrow>
                              run_actions ag (normalize action) state4 ctx5 False calls w5)))))"

text \<open>
  The main loop of \<^verbatim>\<open>run\<close>: \<^verbatim>\<open>while self.running\<close>, left by \<^verbatim>\<open>break\<close> when the step
  asks to stop or the iteration limit is reached.
\<close>

function run_loop ::
  "('x world_scheme) agent \<Rightarrow> int \<Rightarrow> ctx \<Rightarrow> calls \<Rightarrow> 'x world_scheme
     \<Rightarrow> int \<times> ctx \<times> calls \<times> 'x world_scheme" where
  "run_loop ag iteration ctx calls w =
     (case step ag (ctx\<lparr>c_iteration := iteration + 1, c_current_time := Some (now w)\<rparr>) calls w of
        (stop, ctx', calls', w') \<Rightarrow>
          if stop then (iteration + 1, ctx', calls', w')
          else if iteration + 1 \<ge> max_iterations ag then (iteration + 1, ctx', calls', w')
          else run_loop ag (iteration + 1) ctx' calls'
                 (if iteration_delay ag > 0 then sleep (iteration_delay ag) w' else w'))"
  by pat_completeness auto
termination
  by (relation "measure (\<lambda>(ag, iteration, ctx, calls, w). nat (max_iterations ag - iteration))")
     auto

declare run_loop.simps [simp del]

text \<open>\<^verbatim>\<open>str.lower()\<close> on the ASCII letters, and \<^verbatim>\<open>a in b\<close> for strings.\<close>

definition lower_char :: "char \<Rightarrow> char" where
  "lower_char c =
     (let n = (of_char c :: nat) in if 65 \<le> n \<and> n \<le> 90 then char_of (n + 32) else c)"

definition lower :: "string \<Rightarrow> string" where
  "lower s = map lower_char s"

fun is_substring :: "string \<Rightarrow> string \<Rightarrow> bool" where
  "is_substring a [] = (a = [])"
| "is_substring a (c # cs) = (take (length a) (c # cs) = a \<or> is_substring a cs)"

text \<open>
  \<^verbatim>\<open>_auto_select_prompt\<close>: the categories of \<^verbatim>\<open>task_prompt_mapping\<close> in order, the
  keywords of each in order; the first keyword found in the task whose prompt can be
  set ends the search. Otherwise the default prompt is set.
\<close>

fun select_by_keywords ::
  "'w agent \<Rightarrow> string \<Rightarrow> string \<Rightarrow> string list \<Rightarrow> ctx \<Rightarrow> 'w \<Rightarrow> (bool \<times> ctx) \<times> 'w" where
  "select_by_keywords ag task_lower prompt_name [] ctx w = ((False, ctx), w)"
| "select_by_keywords ag task_lower prompt_name (keyword # keywords) ctx w =
     (if is_substring (lower keyword) task_lower then
        (case brain_set_prompt ag prompt_name ctx w of
           ((success, ctx'), w') \<Rightarrow>
             if success then ((True, ctx'), w')
             else select_by_keywords ag task_lower prompt_name keywords ctx' w')
      else select_by_keywords ag task_lower prompt_name keywords ctx w)"

fun select_by_mapping ::
  "'w agent \<Rightarrow> string \<Rightarrow> (string \<times> string list) list \<Rightarrow> ctx \<Rightarrow> 'w \<Rightarrow> (bool \<times> ctx) \<times> 'w" where
  "select_by_mapping ag task_lower [] ctx w = ((False, ctx), w)"
| "select_by_mapping ag task_lower ((prompt_name, keywords) # mapping) ctx w =
     (case select_by_keywords ag task_lower prompt_name keywords ctx w of
        ((found, ctx'), w') \<Rightarrow>
          if found then ((True, ctx'), w')
          else select_by_mapping ag task_lower mapping ctx' w')"

definition auto_select_prompt ::
  "'w agent \<Rightarrow> string \<Rightarrow> ctx \<Rightarrow> 'w \<Rightarrow> (bool \<times> ctx) \<times> 'w" where
  "auto_select_prompt ag task ctx w =
     (case select_by_mapping ag (lower task) (task_prompt_mapping ag) ctx w of
        ((found, ctx'), w') \<Rightarrow>
          if found then ((True, ctx'), w')
          else brain_set_prompt ag (default_prompt_name ag) ctx' w')"

text \<open>\<^verbatim>\<open>setup\<close>: the fresh context of a run.\<close>

definition setup_agent :: "('x world_scheme) agent \<Rightarrow> 'x world_scheme \<Rightarrow> ctx" where
  "setup_agent ag w =
     \<lparr>c_history = [], c_start_time = now w, c_iteration = 0,
      c_prompt_name = Some (default_prompt_name ag), c_task = None,
      c_current_time = None, c_current_action = None, c_stats = None\<rparr>"

record summary =
  iterations :: int
  elapsed_time :: real
  sm_task :: string
  sm_history :: "history_entry list"

text \<open>
  \<^verbatim>\<open>run\<close>. The middlewares are those of the agent record (\<^verbatim>\<open>setup_middlewares\<close> builds
  them from the configuration). Returned with the summary are the final context, the
  executor invocations and the world.
\<close>

definition run ::
  "('x world_scheme) agent \<Rightarrow> string \<Rightarrow> 'x world_scheme
     \<Rightarrow> summary \<times> ctx \<times> calls \<times> 'x world_scheme" where
  "run ag task w =
     (let ctx0 = (setup_agent ag w)\<lparr>c_task := Some task\<rparr> in
      case (if auto_prompt ag \<and> c_prompt_name ctx0 = None
            then (case auto_select_prompt ag task ctx0 w of ((success, ctx'), w') \<Rightarrow> (ctx', w'))
            else (ctx0, w)) of
        (ctx1, w1) \<Rightarrow>
          (let start_time = now w1 in
           case run_loop ag 0 (ctx1\<lparr>c_start_time := start_time\<rparr>) [] w1 of
             (iteration, ctx2, calls, w2) \<Rightarrow>
               (\<lparr>iterations = iteration, elapsed_time = now w2 - start_time,
                 sm_task = task, sm_history = c_history ctx2\<rparr>, ctx2, calls, w2)))"

section \<open>The built-in middlewares and the prompt manager\<close>

text \<open>
  The private attributes of the built-in components: \<^verbatim>\<open>last_action_time\<close> of the
  throttling middleware, \<^verbatim>\<open>stats\<close> of the tracking middleware, \<^verbatim>\<open>current_prompt\<close> of the
  prompt manager.
\<close>

record agent_world = world +
  last_action_time :: real
  tracking_stats :: stats
  current_prompt :: string

text \<open>\<^verbatim>\<open>LLMDecision.set_prompt\<close> over the prompts the manager has loaded.\<close>

definition set_prompt ::
  "string list \<Rightarrow> string \<Rightarrow> ctx \<Rightarrow> 'x agent_world_scheme \<Rightarrow> (bool \<times> ctx) \<times> 'x agent_world_scheme"
  where
  "set_prompt prompts name ctx w =
     (if name \<notin> set prompts then ((False, ctx), w)
      else ((True, ctx\<lparr>c_prompt_name := Some name\<rparr>), w\<lparr>current_prompt := name\<rparr>))"

subsection \<open>StateTrackingMiddleware (middlewares/state\_tracking.py)\<close>

text \<open>Python's \<^verbatim>\<open>xs[start:]\<close> for any integer \<open>start\<close>.\<close>

definition slice_from :: "int \<Rightarrow> 'a list \<Rightarrow> 'a list" where
  "slice_from start xs =
     (if start < 0 then drop (nat (int (length xs) + start)) xs else drop (nat start) xs)"

text \<open>
  The history after an append: cut to its last \<open>max_history\<close> elements by
  \<^verbatim>\<open>history[-max_history:]\<close> when it is longer than \<open>max_history\<close>.
\<close>

definition trim_history :: "int \<Rightarrow> 'a list \<Rightarrow> 'a list" where
  "trim_history max_history history =
     (if int (length history) > max_history then slice_from (- max_history) history
      else history)"

text \<open>
  \<^verbatim>\<open>_update_stats\<close>. The per-type counters are a dictionary keyed by the type tag, so a
  tag that is a list or a dictionary raises \<^verbatim>\<open>TypeError\<close>.
\<close>

definition bump_counts :: "bool \<Rightarrow> type_counts \<Rightarrow> type_counts" where
  "bump_counts success tc =
     (if success then tc\<lparr>tc_total := tc_total tc + 1, tc_success := tc_success tc + 1\<rparr>
      else tc\<lparr>tc_total := tc_total tc + 1, tc_fail := tc_fail tc + 1\<rparr>)"

definition update_stats ::
  "bool \<Rightarrow> json \<Rightarrow> result \<Rightarrow> 'x agent_world_scheme \<Rightarrow> (exn + unit) \<times> 'x agent_world_scheme" where
  "update_stats track_stats action result w =
     (if \<not> track_stats \<or> \<not> truthy action then (Inr (), w)
      else
        case action of
          JDict d \<Rightarrow>
            (let action_type = dict_get_default d ''type'' (JStr ''unknown'');
                 success = r_success result;
                 st = tracking_stats w;
                 st1 = st\<lparr>st_total_actions := st_total_actions st + 1\<rparr>;
                 st2 = (if success
                        then st1\<lparr>st_successful_actions := st_successful_actions st1 + 1\<rparr>
                        else st1\<lparr>st_failed_actions := st_failed_actions st1 + 1\<rparr>)
             in if \<not> hashable action_type
                then (Inl (Exception ''unhashable type''), w\<lparr>tracking_stats := st2\<rparr>)
                else
                  (let tc = (case map_of (st_action_types st2) action_type of
                               None \<Rightarrow> \<lparr>tc_total = 0, tc_success = 0, tc_fail = 0\<rparr>
                             | Some tc \<Rightarrow> tc);
                       st3 = st2\<lparr>st_action_types :=
                                   AList.update action_type (bump_counts success tc)
                                     (st_action_types st2)\<rparr>
                   in (Inr (), w\<lparr>tracking_stats :=
                                   st3\<lparr>st_runtime := now w - st_start_time st3\<rparr>\<rparr>)))
        | _ \<Rightarrow> (Inl (Exception ''no attribute get''), w))"

fun update_stats_list ::
  "bool \<Rightarrow> json list \<Rightarrow> result \<Rightarrow> 'x agent_world_scheme \<Rightarrow> (exn + unit) \<times> 'x agent_world_scheme"
  where
  "update_stats_list track_stats [] result w = (Inr (), w)"
| "update_stats_list track_stats (act # acts) result w =
     (case act of
        JDict d \<Rightarrow>
          (case update_stats track_stats act result w of
             (Inr u, w') \<Rightarrow> update_stats_list track_stats acts result w'
           | (Inl e, w') \<Rightarrow> (Inl e, w'))
      | _ \<Rightarrow> update_stats_list track_stats acts result w)"

definition take_snapshot :: "state \<Rightarrow> snapshot option" where
  "take_snapshot state =
     (if state_truthy state then
        Some \<lparr>snap_screen_width = (case s_screen_width state of Some n \<Rightarrow> n | None \<Rightarrow> 0),
              snap_screen_height = (case s_screen_height state of Some n \<Rightarrow> n | None \<Rightarrow> 0),
              snap_cursor_position =
                (case s_cursor_position state of Some p \<Rightarrow> p | None \<Rightarrow> (0, 0))\<rparr>
      else None)"

definition new_action_record :: "json \<Rightarrow> state \<Rightarrow> ctx \<Rightarrow> real \<Rightarrow> action_record" where
  "new_action_record action state ctx t =
     \<lparr>ar_action = action,
      ar_timestamp = (case c_current_time ctx of Some t' \<Rightarrow> t' | None \<Rightarrow> t),
      ar_state_snapshot = take_snapshot state,
      ar_start_time = None\<rparr>"

definition tracking_before_perception ::
  "bool \<Rightarrow> ctx \<Rightarrow> 'x agent_world_scheme \<Rightarrow> (exn \<times> ctx + ctx) \<times> 'x agent_world_scheme"
  where
  "tracking_before_perception track_stats ctx w =
     (let ctx1 = ctx\<lparr>c_current_time := Some (now w)\<rparr>
      in (Inr (if track_stats then ctx1\<lparr>c_stats := Some (tracking_stats w)\<rparr> else ctx1), w))"

definition tracking_after_decision ::
  "bool \<Rightarrow> json \<Rightarrow> state \<Rightarrow> ctx \<Rightarrow> 'x agent_world_scheme
     \<Rightarrow> (exn \<times> ctx + json \<times> state \<times> ctx) \<times> 'x agent_world_scheme" where
  "tracking_after_decision track_duration action state ctx w =
     (case action of
        JNone \<Rightarrow> (Inr (action, state, ctx), w)
      | JList acts \<Rightarrow>
          (if list_ex (\<lambda>act. case act of JDict d \<Rightarrow> True | _ \<Rightarrow> False) acts
           then (Inr (action, state,
                      ctx\<lparr>c_current_action := Some (new_action_record action state ctx (now w))\<rparr>), w)
           else (Inr (action, state, ctx), w))
      | JDict d \<Rightarrow>
          (let new_record = new_action_record action state ctx (now w);
               new_record' = (if track_duration then new_record\<lparr>ar_start_time := Some (now w)\<rparr>
                              else new_record)
           in (Inr (action, state, ctx\<lparr>c_current_action := Some new_record'\<rparr>), w))
      | _ \<Rightarrow> (Inr (action, state, ctx), w))"

definition tracking_after_execution ::
  "int \<Rightarrow> bool \<Rightarrow> bool \<Rightarrow> result \<Rightarrow> json \<Rightarrow> ctx \<Rightarrow> 'x agent_world_scheme
     \<Rightarrow> (exn \<times> ctx + result \<times> json \<times> ctx) \<times> 'x agent_world_scheme" where
  "tracking_after_execution max_history track_stats track_duration result action ctx w =
     (case c_current_action ctx of
        None \<Rightarrow> (Inr (result, action, ctx), w)
      | Some action_record \<Rightarrow>
          if action = JNone then (Inr (result, action, ctx), w)
          else
            (let entry =
                   (case ar_start_time action_record of
                      Some t \<Rightarrow>
                        if track_duration
                        then ActionRecord (action_record\<lparr>ar_start_time := None\<rparr>) result
                               (Some (now w - t))
                        else ActionRecord action_record result None
                    | None \<Rightarrow> ActionRecord action_record result None);
                 ctx1 = ctx\<lparr>c_history := trim_history max_history (c_history ctx @ [entry])\<rparr>
             in case (case action of
                        JList acts \<Rightarrow> update_stats_list track_stats acts result w
                      | _ \<Rightarrow> update_stats track_stats action result w) of
                  (Inl e, w') \<Rightarrow> (Inl (e, ctx1), w')
                | (Inr u, w') \<Rightarrow> (Inr (result, action, ctx1\<lparr>c_current_action := None\<rparr>), w')))"

definition StateTrackingMiddleware ::
  "int \<Rightarrow> bool \<Rightarrow> bool \<Rightarrow> ('x agent_world_scheme) middleware" where
  "StateTrackingMiddleware max_history track_stats track_duration =
     (Middleware ''StateTrackingMiddleware'')
       \<lparr>mw_before_perception := tracking_before_perception track_stats,
        mw_after_decision := tracking_after_decision track_duration,
        mw_after_execution := tracking_after_execution max_history track_stats track_duration\<rparr>"

subsection \<open>ThrottlingMiddleware (middlewares/throttling.py)\<close>

text \<open>\<^verbatim>\<open>self.action_delays.get(key, self.default_delay)\<close>.\<close>

definition delay_for :: "(string \<times> real) list \<Rightarrow> real \<Rightarrow> json \<Rightarrow> exn + real" where
  "delay_for action_delays default_delay key =
     (if \<not> hashable key then Inl (Exception ''unhashable type'')
      else
        case key of
          JStr s \<Rightarrow>
            (case map_of action_delays s of Some d \<Rightarrow> Inr d | None \<Rightarrow> Inr default_delay)
        | _ \<Rightarrow> Inr default_delay)"

text \<open>
  The running maximum over the delays of the dictionaries of a list; the first delay
  that raises ends the loop.
\<close>

fun max_delays :: "(exn + real) list \<Rightarrow> real \<Rightarrow> exn + real" where
  "max_delays [] max_delay = Inr max_delay"
| "max_delays (Inl e # ds) max_delay = Inl e"
| "max_delays (Inr d # ds) max_delay = max_delays ds (max max_delay d)"

text \<open>
  \<^verbatim>\<open>_get_action_delay\<close>. Iterating over the \<^verbatim>\<open>actions\<close> of a composite action yields
  its elements for a list, strings for a dictionary or a string (none of them a
  dictionary, so none counts), and raises for any other value.
\<close>

function get_action_delay :: "(string \<times> real) list \<Rightarrow> real \<Rightarrow> json \<Rightarrow> exn + real" where
  "get_action_delay action_delays default_delay action =
     (case action of
        JDict d \<Rightarrow>
          (let action_type = dict_get_default d ''type'' (JStr []) in
           if action_type = JStr ''composite'' \<and> has_key d ''actions'' then
             (case (case dict_get_default d ''actions'' (JList []) of
                      JList subs \<Rightarrow>
                        max_delays
                          (map (\<lambda>sub_action.
                                  case sub_action of
                                    JDict d' \<Rightarrow>
                                      get_action_delay action_delays default_delay sub_action
                                  | _ \<Rightarrow> Inr 0) subs) 0
                    | JDict items \<Rightarrow> Inr 0
                    | JStr chars \<Rightarrow> Inr 0
                    | _ \<Rightarrow> Inl (Exception ''not iterable'')) of
                Inl e \<Rightarrow> Inl e
              | Inr max_delay \<Rightarrow>
                  (case delay_for action_delays default_delay (JStr ''composite'') of
                     Inl e \<Rightarrow> Inl e
                   | Inr composite_delay \<Rightarrow> Inr (max max_delay composite_delay)))
           else delay_for action_delays default_delay action_type)
      | _ \<Rightarrow> Inr 0)"
  by pat_completeness auto
termination
proof (relation "measure (\<lambda>(action_delays, default_delay, action). size action)", goal_cases)
  case 1
  show ?case by simp
next
  case (2 action_delays default_delay action d action_type subs sub_action d')
  have value_smaller: "size v < size (JDict e)" if "map_of e k = Some v" for e k and v :: json
    using that by (induction e) (auto split: if_splits)
  have elem_smaller: "size x < size (JList xs)" if "x \<in> set xs" for xs and x :: json
    using that by (induction xs) auto
  from 2 have "map_of d ''actions'' = Some (JList subs) \<or> subs = []"
    by (auto simp: dict_get_default_def split: option.splits)
  with 2 have "size (JList subs) < size (JDict d)"
    by (auto dest: value_smaller)
  moreover from 2 have "size sub_action < size (JList subs)"
    by (auto dest: elem_smaller)
  ultimately show ?case using 2 by simp
qed

text \<open>\<^verbatim>\<open>_get_max_delay\<close>.\<close>

definition get_max_delay :: "(string \<times> real) list \<Rightarrow> real \<Rightarrow> json \<Rightarrow> exn + real" where
  "get_max_delay action_delays default_delay action =
     (case action of
        JList acts \<Rightarrow>
          max_delays
            (map (\<lambda>act. case act of
                          JDict d \<Rightarrow> get_action_delay action_delays default_delay act
                        | _ \<Rightarrow> Inr 0) acts) 0
      | JDict d \<Rightarrow> get_action_delay action_delays default_delay action
      | _ \<Rightarrow> Inr 0)"

definition throttling_before_execution ::
  "(string \<times> real) list \<Rightarrow> real \<Rightarrow> json \<Rightarrow> ctx \<Rightarrow> 'x agent_world_scheme
     \<Rightarrow> (exn \<times> ctx + json \<times> ctx) \<times> 'x agent_world_scheme" where
  "throttling_before_execution action_delays default_delay action ctx w =
     (if action = JNone then (Inr (action, ctx), w)
      else
        (let current_time = now w in
         case get_max_delay action_delays default_delay action of
           Inl e \<Rightarrow> (Inl (e, ctx), w)
         | Inr delay \<Rightarrow>
             (let elapsed = current_time - last_action_time w;
                  wait_time = max 0 (delay - elapsed)
              in (Inr (action, ctx), if wait_time > 0 then sleep wait_time w else w))))"

definition throttling_after_execution ::
  "result \<Rightarrow> json \<Rightarrow> ctx \<Rightarrow> 'x agent_world_scheme
     \<Rightarrow> (exn \<times> ctx + result \<times> json \<times> ctx) \<times> 'x agent_world_scheme" where
  "throttling_after_execution result action ctx w =
     (Inr (result, action, ctx), w\<lparr>last_action_time := now w\<rparr>)"

definition ThrottlingMiddleware ::
  "(string \<times> real) list \<Rightarrow> real \<Rightarrow> ('x agent_world_scheme) middleware" where
  "ThrottlingMiddleware action_delays default_delay =
     (Middleware ''ThrottlingMiddleware'')
       \<lparr>mw_before_execution := throttling_before_execution action_delays default_delay,
        mw_after_execution := throttling_after_execution\<rparr>"

text \<open>
  The world after the constructors of the built-in components have run at time \<open>t\<close>:
  \<^verbatim>\<open>last_action_time = 0\<close>, empty counters, the default prompt current.
\<close>

definition initial_world :: "real \<Rightarrow> string \<Rightarrow> agent_world" where
  "initial_world t default_name =
     \<lparr>now = t, log = [], last_action_time = 0,
      tracking_stats = \<lparr>st_total_actions = 0, st_successful_actions = 0, st_failed_actions = 0,
                        st_action_types = [], st_start_time = t, st_runtime = 0\<rparr>,
      current_prompt = default_name\<rparr>"

section \<open>Stand-ins for collaborators and middlewares\<close>

text \<open>
  Small middlewares and a scripted agent, on which the properties below are evaluated:
  a middleware that raises in every phase, one that writes a tag into the context in
  every phase, one that writes the tag and then raises, and one that rejects every action
  after the decision or before the execution.
\<close>

definition RaisingMiddleware :: "string \<Rightarrow> 'w middleware" where
  "RaisingMiddleware name =
     \<lparr>mw_name = name,
      mw_before_perception = (\<lambda>ctx w. (Inl (Exception ''boom'', ctx), w)),
      mw_after_perception = (\<lambda>state ctx w. (Inl (Exception ''boom'', ctx), w)),
      mw_before_decision = (\<lambda>state ctx w. (Inl (Exception ''boom'', ctx), w)),
      mw_after_decision = (\<lambda>action state ctx w. (Inl (Exception ''boom'', ctx), w)),
      mw_before_execution = (\<lambda>action ctx w. (Inl (Exception ''boom'', ctx), w)),
      mw_after_execution = (\<lambda>result action ctx w. (Inl (Exception ''boom'', ctx), w))\<rparr>"

definition TagThenRaise :: "string \<Rightarrow> 'w middleware" where
  "TagThenRaise tag =
     \<lparr>mw_name = tag,
      mw_before_perception =
        (\<lambda>ctx w. (Inl (Exception ''boom'', ctx\<lparr>c_task := Some tag\<rparr>), w)),
      mw_after_perception =
        (\<lambda>state ctx w. (Inl (Exception ''boom'', ctx\<lparr>c_task := Some tag\<rparr>), w)),
      mw_before_decision =
        (\<lambda>state ctx w. (Inl (Exception ''boom'', ctx\<lparr>c_task := Some tag\<rparr>), w)),
      mw_after_decision =
        (\<lambda>action state ctx w. (Inl (Exception ''boom'', ctx\<lparr>c_task := Some tag\<rparr>), w)),
      mw_before_execution =
        (\<lambda>action ctx w. (Inl (Exception ''boom'', ctx\<lparr>c_task := Some tag\<rparr>), w)),
      mw_after_execution =
        (\<lambda>result action ctx w. (Inl (Exception ''boom'', ctx\<lparr>c_task := Some tag\<rparr>), w))\<rparr>"

definition TaggingMiddleware :: "string \<Rightarrow> 'w middleware" where
  "TaggingMiddleware tag =
     \<lparr>mw_name = tag,
      mw_before_perception = (\<lambda>ctx w. (Inr (ctx\<lparr>c_task := Some tag\<rparr>), w)),
      mw_after_perception = (\<lambda>state ctx w. (Inr (state, ctx\<lparr>c_task := Some tag\<rparr>), w)),
      mw_before_decision = (\<lambda>state ctx w. (Inr (state, ctx\<lparr>c_task := Some tag\<rparr>), w)),
      mw_after_decision =
        (\<lambda>action state ctx w. (Inr (action, state, ctx\<lparr>c_task := Some tag\<rparr>), w)),
      mw_before_execution = (\<lambda>action ctx w. (Inr (action, ctx\<lparr>c_task := Some tag\<rparr>), w)),
      mw_after_execution =
        (\<lambda>result action ctx w. (Inr (result, action, ctx\<lparr>c_task := Some tag\<rparr>), w))\<rparr>"

definition RejectAfterDecision :: "string \<Rightarrow> 'w middleware" where
  "RejectAfterDecision name =
     (Middleware name)
       \<lparr>mw_after_decision := (\<lambda>action state ctx w. (Inr (JNone, state, ctx), w))\<rparr>"

definition RejectBeforeExecution :: "string \<Rightarrow> 'w middleware" where
  "RejectBeforeExecution name =
     (Middleware name)\<lparr>mw_before_execution := (\<lambda>action ctx w. (Inr (JNone, ctx), w))\<rparr>"

text \<open>
  A middleware is transparent when, in the phases between decision and history, it
  hands on the action, the state, the result and the context it was given, or raises
  without having written to the context. Whatever it does to the world is left open. The
  logging and the throttling middleware are of this kind.
\<close>

definition transparent :: "'w middleware \<Rightarrow> bool" where
  "transparent m =
     ((\<forall>a s c w. fst (mw_after_decision m a s c w) = Inr (a, s, c)
          \<or> (\<exists>e. fst (mw_after_decision m a s c w) = Inl (e, c)))
      \<and> (\<forall>a c w. fst (mw_before_execution m a c w) = Inr (a, c)
          \<or> (\<exists>e. fst (mw_before_execution m a c w) = Inl (e, c)))
      \<and> (\<forall>r a c w. fst (mw_after_execution m r a c w) = Inr (r, a, c)
          \<or> (\<exists>e. fst (mw_after_execution m r a c w) = Inl (e, c))))"

definition world0 :: world where
  "world0 = \<lparr>now = 0, log = []\<rparr>"

definition ctx0 :: ctx where
  "ctx0 = \<lparr>c_history = [], c_start_time = 0, c_iteration = 0, c_prompt_name = Some ''default'',
           c_task = None, c_current_time = None, c_current_action = None, c_stats = None\<rparr>"

definition screen_state :: state where
  "screen_state =
     \<lparr>s_image = Some ''png'', s_screen_width = Some 1920, s_screen_height = Some 1080,
      s_timestamp = Some 0, s_cursor_position = Some (0, 0), s_error = None\<rparr>"

definition ok_result :: result where
  "ok_result = \<lparr>r_success = True, r_timestamp = 0, r_error = None, r_message = None\<rparr>"

definition click_1_1 :: json where
  "click_1_1 = JDict [(''type'', JStr ''click''), (''x'', JInt 1), (''y'', JInt 1)]"

definition move_0_0 :: json where
  "move_0_0 = JDict [(''type'', JStr ''move''), (''x'', JInt 0), (''y'', JInt 0)]"

text \<open>An action whose type tag is a list, as a model may well answer.\<close>

definition list_typed_action :: json where
  "list_typed_action = JDict [(''type'', JList [JStr ''click''])]"

definition stop_done :: json where
  "stop_done = JDict [(''type'', JStr ''stop''), (''reason'', JStr ''done'')]"

text \<open>
  An agent whose perception always returns the same screen, whose brain always returns
  the given decision, and whose executor always reports the given outcome.
\<close>

definition scripted_agent ::
  "json \<Rightarrow> bool \<Rightarrow> ('x world_scheme) middleware list \<Rightarrow> int \<Rightarrow> ('x world_scheme) agent" where
  "scripted_agent decision outcome mws limit =
     \<lparr>perception_process = (\<lambda>w. (Inr screen_state, w)),
      brain_decide = (\<lambda>state ctx w. (Inr (decision, ctx), w)),
      brain_set_prompt = (\<lambda>name ctx w. ((True, ctx\<lparr>c_prompt_name := Some name\<rparr>), w)),
      executor_execute = (\<lambda>action w. (Inr outcome, w)),
      middlewares = mws,
      max_iterations = limit,
      iteration_delay = 1 / 2,
      auto_prompt = True,
      default_prompt_name = ''default'',
      task_prompt_mapping = [(''browser'', [''chrome'', ''firefox''])]\<rparr>"

section \<open>Properties of validate\<close>

text \<open>
  Claim C7, as amended. \<open>validate\<close> accepts exactly the dictionaries whose type tag is
  one of the six known tags and whose fields satisfy the rule of that tag, where the
  rules test presence only: \<^verbatim>\<open>move\<close> needs the keys \<^verbatim>\<open>x\<close> and \<^verbatim>\<open>y\<close> (their values
  are not inspected); \<^verbatim>\<open>click\<close> needs \<^verbatim>\<open>x\<close> and \<^verbatim>\<open>y\<close> to be both \<^verbatim>\<open>None\<close>/absent or both
  not \<^verbatim>\<open>None\<close>; \<^verbatim>\<open>type\<close> needs the key \<^verbatim>\<open>text\<close>; \<^verbatim>\<open>key\<close> needs the key \<^verbatim>\<open>keys\<close> (its
  value, even an empty list, is not inspected); \<^verbatim>\<open>scroll\<close> needs the key \<^verbatim>\<open>direction\<close> or
  both keys \<^verbatim>\<open>x\<close> and \<^verbatim>\<open>y\<close>; \<^verbatim>\<open>stop\<close> is always valid. A value that is not a dictionary,
  and a missing or unknown type tag, are invalid. The five rows of the validation table
  hold.
\<close>

theorem validate_field_rules:
  "(validate a \<longleftrightarrow>
      (\<exists>d. a = JDict d \<and>
        (dict_get d ''type'' = JStr ''move'' \<and> has_key d ''x'' \<and> has_key d ''y''
         \<or> dict_get d ''type'' = JStr ''click''
              \<and> ((dict_get d ''x'' = JNone) = (dict_get d ''y'' = JNone))
         \<or> dict_get d ''type'' = JStr ''type'' \<and> has_key d ''text''
         \<or> dict_get d ''type'' = JStr ''key'' \<and> has_key d ''keys''
         \<or> dict_get d ''type'' = JStr ''scroll''
              \<and> (has_key d ''direction'' \<or> (has_key d ''x'' \<and> has_key d ''y''))
         \<or> dict_get d ''type'' = JStr ''stop'')))
   \<and> \<not> validate (JDict [(''type'', JStr ''move''), (''x'', JInt 10)])
   \<and> validate (JDict [(''type'', JStr ''click'')])
   \<and> \<not> validate (JDict [(''type'', JStr ''scroll'')])
   \<and> validate (JDict [(''type'', JStr ''key''), (''keys'', JStr ''a'')])
   \<and> validate (JDict [(''type'', JStr ''scroll''), (''direction'', JStr ''up'')])"
proof -
  have rules: "validate a \<longleftrightarrow>
      (\<exists>d. a = JDict d \<and>
        (dict_get d ''type'' = JStr ''move'' \<and> has_key d ''x'' \<and> has_key d ''y''
         \<or> dict_get d ''type'' = JStr ''click''
              \<and> ((dict_get d ''x'' = JNone) = (dict_get d ''y'' = JNone))
         \<or> dict_get d ''type'' = JStr ''type'' \<and> has_key d ''text''
         \<or> dict_get d ''type'' = JStr ''key'' \<and> has_key d ''keys''
         \<or> dict_get d ''type'' = JStr ''scroll''
              \<and> (has_key d ''direction'' \<or> (has_key d ''x'' \<and> has_key d ''y''))
         \<or> dict_get d ''type'' = JStr ''stop''))"
    by (cases a) (auto simp: Let_def)
  have rows:
    "\<not> validate (JDict [(''type'', JStr ''move''), (''x'', JInt 10)])"
    "validate (JDict [(''type'', JStr ''click'')])"
    "\<not> validate (JDict [(''type'', JStr ''scroll'')])"
    "validate (JDict [(''type'', JStr ''key''), (''keys'', JStr ''a'')])"
    "validate (JDict [(''type'', JStr ''scroll''), (''direction'', JStr ''up'')])"
    by (simp_all add: dict_get_def has_key_def)
  from rules rows show ?thesis by blast
qed

text \<open>
  The rules at a concrete action: a scroll without direction but with both coordinates
  is valid.
\<close>

theorem validate_field_rules_witness:
  "validate (JDict [(''type'', JStr ''scroll''), (''x'', JInt 1), (''y'', JInt 2)])"
  using validate_field_rules
          [of "JDict [(''type'', JStr ''scroll''), (''x'', JInt 1), (''y'', JInt 2)]"]
  by (simp add: dict_get_def has_key_def)

text \<open>
  Claim C7 as stated fails: \<open>validate\<close> accepts a \<^verbatim>\<open>move\<close> whose coordinates are not
  numbers and a \<^verbatim>\<open>key\<close> action whose list of keys is empty, which the rules as worded
  (\<open>validate_spec\<close>) reject.
\<close>

theorem validate_spec_counterexample:
  "validate (JDict [(''type'', JStr ''move''), (''x'', JStr ''left''), (''y'', JStr ''top'')])
   \<and> \<not> validate_spec
          (JDict [(''type'', JStr ''move''), (''x'', JStr ''left''), (''y'', JStr ''top'')])
   \<and> validate (JDict [(''type'', JStr ''key''), (''keys'', JList [])])
   \<and> \<not> validate_spec (JDict [(''type'', JStr ''key''), (''keys'', JList [])])"
  by (simp add: validate_spec_def dict_get_def has_key_def)

section \<open>Properties of decision normalization\<close>

lemma normalize_stop_action: "normalize (stop_action reason) = [stop_action reason]"
  by (simp add: normalize_def stop_action_def)

lemma parse_response_cases:
  "(\<exists>d. has_key d ''type'' \<and> parse_response re_search json_loads response = JDict d)
   \<or> (\<exists>d xs. has_key d ''type''
         \<and> parse_response re_search json_loads response = JList (JDict d # xs))
   \<or> (\<exists>reason. parse_response re_search json_loads response = stop_action (JStr reason))"
  by (auto simp: parse_response_def split: option.splits loads_result.splits json.splits
        list.splits)

lemma normalize_parse_response_nonempty:
  "normalize (parse_response re_search json_loads response) \<noteq> []"
  using parse_response_cases [of re_search json_loads response]
  by (auto simp: normalize_def stop_action_def)

text \<open>
  Claim C6. The action sequence that \<^verbatim>\<open>step\<close> builds from a decision of the brain is
  never empty, whether the decision comes from \<^verbatim>\<open>_parse_response\<close> or from \<^verbatim>\<open>decide\<close> as
  a whole. A decoded dictionary with a type tag is wrapped into a one-element list; a
  decoded list whose first element is a dictionary with a type tag is used as it is; and
  every malformed reply (an API error text, no fenced block found, a block that does not
  decode, an empty list, a value that is neither a dictionary nor a list, a dictionary
  without type tag, a list whose first element is not a dictionary with a type tag)
  becomes the single stop action with the diagnostic reason of that case.
\<close>

theorem normalize_decision_never_empty:
  "normalize (parse_response re_search json_loads response) \<noteq> []
   \<and> (\<exists>action ctx'. fst (decide call_api re_search json_loads state ctx w) = Inr (action, ctx')
         \<and> normalize action \<noteq> [])
   \<and> (take 3 response = ''API'' \<longrightarrow>
        normalize (parse_response re_search json_loads response)
          = [stop_action (JStr response)])
   \<and> (take 3 response \<noteq> ''API'' \<longrightarrow>
        (re_search response = None \<longrightarrow>
           normalize (parse_response re_search json_loads response)
             = [stop_action (JStr msg_no_json)])
        \<and> (\<forall>s. re_search response = Some s \<longrightarrow>
             (\<forall>e. json_loads s = JSONDecodeError e \<longrightarrow>
                normalize (parse_response re_search json_loads response)
                  = [stop_action (JStr msg_bad_json)])
             \<and> (\<forall>e. json_loads s = LoadsException e \<longrightarrow>
                normalize (parse_response re_search json_loads response)
                  = [stop_action (JStr (msg_parse_error @ e))])
             \<and> (\<forall>v. json_loads s = Loaded v \<longrightarrow>
                normalize (parse_response re_search json_loads response)
                  = (case v of
                       JDict d \<Rightarrow>
                         if has_key d ''type'' then [JDict d]
                         else [stop_action (JStr msg_invalid_format)]
                     | JList (JDict d # xs) \<Rightarrow>
                         if has_key d ''type'' then JDict d # xs
                         else [stop_action (JStr msg_invalid_format)]
                     | _ \<Rightarrow> [stop_action (JStr msg_invalid_format)]))))"
proof -
  have decide_nonempty:
    "\<exists>action ctx'. fst (decide call_api re_search json_loads state ctx w) = Inr (action, ctx')
        \<and> normalize action \<noteq> []"
    by (auto simp: decide_def normalize_stop_action normalize_parse_response_nonempty
          split: prod.splits sum.splits)
  have api: "take 3 response = ''API'' \<Longrightarrow>
      normalize (parse_response re_search json_loads response) = [stop_action (JStr response)]"
    by (simp add: parse_response_def normalize_stop_action)
  have no_json: "take 3 response \<noteq> ''API'' \<Longrightarrow> re_search response = None \<Longrightarrow>
      normalize (parse_response re_search json_loads response)
        = [stop_action (JStr msg_no_json)]"
    by (simp add: parse_response_def normalize_stop_action)
  have bad: "take 3 response \<noteq> ''API'' \<Longrightarrow> re_search response = Some s \<Longrightarrow>
      json_loads s = JSONDecodeError e \<Longrightarrow>
      normalize (parse_response re_search json_loads response)
        = [stop_action (JStr msg_bad_json)]" for s e
    by (simp add: parse_response_def normalize_stop_action)
  have other: "take 3 response \<noteq> ''API'' \<Longrightarrow> re_search response = Some s \<Longrightarrow>
      json_loads s = LoadsException e \<Longrightarrow>
      normalize (parse_response re_search json_loads response)
        = [stop_action (JStr (msg_parse_error @ e))]" for s e
    by (simp add: parse_response_def normalize_stop_action)
  have loaded: "take 3 response \<noteq> ''API'' \<Longrightarrow> re_search response = Some s \<Longrightarrow>
      json_loads s = Loaded v \<Longrightarrow>
      normalize (parse_response re_search json_loads response)
        = (case v of
             JDict d \<Rightarrow>
               if has_key d ''type'' then [JDict d]
               else [stop_action (JStr msg_invalid_format)]
           | JList (JDict d # xs) \<Rightarrow>
               if has_key d ''type'' then JDict d # xs
               else [stop_action (JStr msg_invalid_format)]
           | _ \<Rightarrow> [stop_action (JStr msg_invalid_format)])" for s v
    by (auto simp: parse_response_def normalize_def stop_action_def
          split: json.splits list.splits)
  show ?thesis
    using normalize_parse_response_nonempty [of re_search json_loads response]
      decide_nonempty api no_json bad other loaded
    by blast
qed

text \<open>
  The claim at concrete replies: a reply whose block decodes to the empty list gives the
  single stop action, and one that decodes to a click gives the click alone.
\<close>

theorem normalize_decision_never_empty_witness:
  "normalize (parse_response (\<lambda>r. Some ''[]'') (\<lambda>s. Loaded (JList [])) ''reply'')
     = [stop_action (JStr msg_invalid_format)]
   \<and> normalize (parse_response (\<lambda>r. Some ''{}'')
         (\<lambda>s. Loaded (JDict [(''type'', JStr ''click'')])) ''reply'')
     = [JDict [(''type'', JStr ''click'')]]"
proof -
  have a: "take 3 ''reply'' \<noteq> ''API''" by simp
  have "normalize (parse_response (\<lambda>r. Some ''[]'') (\<lambda>s. Loaded (JList [])) ''reply'')
     = [stop_action (JStr msg_invalid_format)]"
    using a normalize_decision_never_empty
            [where re_search = "\<lambda>r. Some ''[]''" and json_loads = "\<lambda>s. Loaded (JList [])"
               and response = "''reply''" and call_api = "\<lambda>s c u. (Inr ''reply'', u)"
               and state = undefined and ctx = undefined and w = "()"]
    by simp
  moreover have "normalize (parse_response (\<lambda>r. Some ''{}'')
         (\<lambda>s. Loaded (JDict [(''type'', JStr ''click'')])) ''reply'')
     = [JDict [(''type'', JStr ''click'')]]"
    using a normalize_decision_never_empty
            [where re_search = "\<lambda>r. Some ''{}''"
               and json_loads = "\<lambda>s. Loaded (JDict [(''type'', JStr ''click'')])"
               and response = "''reply''" and call_api = "\<lambda>s c u. (Inr ''reply'', u)"
               and state = undefined and ctx = undefined and w = "()"]
    by (simp add: has_key_def)
  ultimately show ?thesis by simp
qed

section \<open>Properties of the MiddlewareManager\<close>

subsection \<open>A chain continues behind a prefix\<close>

lemma process_before_perception_append:
  "process_before_perception (pre @ post) c w =
     (case process_before_perception pre c w of (c1, w1) \<Rightarrow> process_before_perception post c1 w1)"
  by (induction pre arbitrary: c w) (auto split: prod.splits sum.splits)

lemma process_after_perception_append:
  "process_after_perception (pre @ post) s c w =
     (case process_after_perception pre s c w of
        ((s1, c1), w1) \<Rightarrow> process_after_perception post s1 c1 w1)"
  by (induction pre arbitrary: s c w) (auto split: prod.splits sum.splits)

lemma process_before_decision_append:
  "process_before_decision (pre @ post) s c w =
     (case process_before_decision pre s c w of
        ((s1, c1), w1) \<Rightarrow> process_before_decision post s1 c1 w1)"
  by (induction pre arbitrary: s c w) (auto split: prod.splits sum.splits)

lemma process_after_execution_append:
  "process_after_execution (pre @ post) r a c w =
     (case process_after_execution pre r a c w of
        ((r1, a1, c1), w1) \<Rightarrow> process_after_execution post r1 a1 c1 w1)"
  by (induction pre arbitrary: r a c w) (auto split: prod.splits sum.splits)

text \<open>In the two phases with rejection the chain goes on only behind an action that is not \<^verbatim>\<open>None\<close>.\<close>

lemma process_after_decision_append:
  "process_after_decision pre a s c w = ((a1, s1, c1), w1) \<Longrightarrow> a1 \<noteq> JNone \<Longrightarrow>
   process_after_decision (pre @ post) a s c w = process_after_decision post a1 s1 c1 w1"
  by (induction pre arbitrary: a s c w) (auto split: prod.splits sum.splits if_splits)

lemma process_before_execution_append:
  "process_before_execution pre a c w = ((a1, c1), w1) \<Longrightarrow> a1 \<noteq> JNone \<Longrightarrow>
   process_before_execution (pre @ post) a c w = process_before_execution post a1 c1 w1"
  by (induction pre arbitrary: a c w) (auto split: prod.splits sum.splits if_splits)

subsection \<open>A chain of middlewares that all raise without touching the context returns what it was given\<close>

lemma process_before_perception_all_raise:
  "\<forall>m \<in> set ms. \<forall>u. \<exists>e u'. mw_before_perception m c u = (Inl (e, c), u') \<Longrightarrow>
   fst (process_before_perception ms c w) = c"
proof (induction ms arbitrary: w)
  case Nil
  show ?case by simp
next
  case (Cons m ms)
  then obtain e u' where "mw_before_perception m c w = (Inl (e, c), u')"
    by (metis list.set_intros(1))
  with Cons show ?case by simp
qed

lemma process_after_perception_all_raise:
  "\<forall>m \<in> set ms. \<forall>u. \<exists>e u'. mw_after_perception m s c u = (Inl (e, c), u') \<Longrightarrow>
   fst (process_after_perception ms s c w) = (s, c)"
proof (induction ms arbitrary: w)
  case Nil
  show ?case by simp
next
  case (Cons m ms)
  then obtain e u' where "mw_after_perception m s c w = (Inl (e, c), u')"
    by (metis list.set_intros(1))
  with Cons show ?case by simp
qed

lemma process_before_decision_all_raise:
  "\<forall>m \<in> set ms. \<forall>u. \<exists>e u'. mw_before_decision m s c u = (Inl (e, c), u') \<Longrightarrow>
   fst (process_before_decision ms s c w) = (s, c)"
proof (induction ms arbitrary: w)
  case Nil
  show ?case by simp
next
  case (Cons m ms)
  then obtain e u' where "mw_before_decision m s c w = (Inl (e, c), u')"
    by (metis list.set_intros(1))
  with Cons show ?case by simp
qed

lemma process_after_decision_all_raise:
  "\<forall>m \<in> set ms. \<forall>u. \<exists>e u'. mw_after_decision m a s c u = (Inl (e, c), u') \<Longrightarrow>
   fst (process_after_decision ms a s c w) = (a, s, c)"
proof (induction ms arbitrary: w)
  case Nil
  show ?case by simp
next
  case (Cons m ms)
  then obtain e u' where "mw_after_decision m a s c w = (Inl (e, c), u')"
    by (metis list.set_intros(1))
  with Cons show ?case by simp
qed

lemma process_before_execution_all_raise:
  "\<forall>m \<in> set ms. \<forall>u. \<exists>e u'. mw_before_execution m a c u = (Inl (e, c), u') \<Longrightarrow>
   fst (process_before_execution ms a c w) = (a, c)"
proof (induction ms arbitrary: w)
  case Nil
  show ?case by simp
next
  case (Cons m ms)
  then obtain e u' where "mw_before_execution m a c w = (Inl (e, c), u')"
    by (metis list.set_intros(1))
  with Cons show ?case by simp
qed

lemma process_after_execution_all_raise:
  "\<forall>m \<in> set ms. \<forall>u. \<exists>e u'. mw_after_execution m r a c u = (Inl (e, c), u') \<Longrightarrow>
   fst (process_after_execution ms r a c w) = (r, a, c)"
proof (induction ms arbitrary: w)
  case Nil
  show ?case by simp
next
  case (Cons m ms)
  then obtain e u' where "mw_after_execution m r a c w = (Inl (e, c), u')"
    by (metis list.set_intros(1))
  with Cons show ?case by simp
qed

subsection \<open>The output is that of the last middleware that returned\<close>

lemma before_perception_last_success:
  assumes "process_before_perception pre c w = (c1, w1)"
    and "mw_before_perception m c1 w1 = (Inr c2, w2)"
    and "\<forall>m' \<in> set post. \<forall>u. \<exists>e u'. mw_before_perception m' c2 u = (Inl (e, c2), u')"
  shows "fst (process_before_perception (pre @ m # post) c w) = c2"
  using assms
  by (simp add: process_before_perception_append process_before_perception_all_raise)

lemma after_perception_last_success:
  assumes "process_after_perception pre s c w = ((s1, c1), w1)"
    and "mw_after_perception m s1 c1 w1 = (Inr (s2, c2), w2)"
    and "\<forall>m' \<in> set post. \<forall>u. \<exists>e u'. mw_after_perception m' s2 c2 u = (Inl (e, c2), u')"
  shows "fst (process_after_perception (pre @ m # post) s c w) = (s2, c2)"
  using assms
  by (simp add: process_after_perception_append process_after_perception_all_raise)

lemma before_decision_last_success:
  assumes "process_before_decision pre s c w = ((s1, c1), w1)"
    and "mw_before_decision m s1 c1 w1 = (Inr (s2, c2), w2)"
    and "\<forall>m' \<in> set post. \<forall>u. \<exists>e u'. mw_before_decision m' s2 c2 u = (Inl (e, c2), u')"
  shows "fst (process_before_decision (pre @ m # post) s c w) = (s2, c2)"
  using assms
  by (simp add: process_before_decision_append process_before_decision_all_raise)

lemma after_decision_last_success:
  assumes "process_after_decision pre a s c w = ((a1, s1, c1), w1)" and "a1 \<noteq> JNone"
    and "mw_after_decision m a1 s1 c1 w1 = (Inr (a2, s2, c2), w2)"
    and "\<forall>m' \<in> set post. \<forall>u. \<exists>e u'. mw_after_decision m' a2 s2 c2 u = (Inl (e, c2), u')"
  shows "fst (process_after_decision (pre @ m # post) a s c w) = (a2, s2, c2)"
  using assms
  by (simp add: process_after_decision_append process_after_decision_all_raise)

lemma before_execution_last_success:
  assumes "process_before_execution pre a c w = ((a1, c1), w1)" and "a1 \<noteq> JNone"
    and "mw_before_execution m a1 c1 w1 = (Inr (a2, c2), w2)"
    and "\<forall>m' \<in> set post. \<forall>u. \<exists>e u'. mw_before_execution m' a2 c2 u = (Inl (e, c2), u')"
  shows "fst (process_before_execution (pre @ m # post) a c w) = (a2, c2)"
  using assms
  by (simp add: process_before_execution_append process_before_execution_all_raise)

lemma after_execution_last_success:
  assumes "process_after_execution pre r a c w = ((r1, a1, c1), w1)"
    and "mw_after_execution m r1 a1 c1 w1 = (Inr (r2, a2, c2), w2)"
    and "\<forall>m' \<in> set post. \<forall>u. \<exists>e u'. mw_after_execution m' r2 a2 c2 u = (Inl (e, c2), u')"
  shows "fst (process_after_execution (pre @ m # post) r a c w) = (r2, a2, c2)"
  using assms
  by (simp add: process_after_execution_append process_after_execution_all_raise)
text \<open>
  Claim C3, as amended. In each of the six phases, a middleware that raises is logged and
  skipped: the manager goes on with the rest of the chain, handing it the action, state
  and result it held before the failing call, and the context dictionary as the failing
  call has left it (first statement of each phase). A middleware that raises without
  having written to the context is a no-op for that call. Hence, if \<open>m\<close> returns and
  every middleware behind it raises without touching the context, the phase returns what
  \<open>m\<close> returned (second statement of each phase; in the two phases with rejection, for a
  chain no earlier middleware has cut short by rejecting the action).
\<close>

theorem middleware_error_isolation:
  "(mw_before_perception m c w = (Inl (e, c'), w') \<longrightarrow>
      process_before_perception (m # ms) c w =
        process_before_perception ms c'
          (logger ERROR (error_in_middleware m ''process_before_perception'' e) w'))
   \<and> (process_before_perception pre c w = (c_pre, w_pre)
        \<and> mw_before_perception m c_pre w_pre = (Inr c_m, w_m)
        \<and> (\<forall>m' \<in> set post. \<forall>u. \<exists>e u'. mw_before_perception m' c_m u = (Inl (e, c_m), u')) \<longrightarrow>
      fst (process_before_perception (pre @ m # post) c w) = c_m)
   \<and> (mw_after_perception m s c w = (Inl (e, c'), w') \<longrightarrow>
      process_after_perception (m # ms) s c w =
        process_after_perception ms s c'
          (logger ERROR (error_in_middleware m ''process_after_perception'' e) w'))
   \<and> (process_after_perception pre s c w = ((s_pre, c_pre), w_pre)
        \<and> mw_after_perception m s_pre c_pre w_pre = (Inr (s_m, c_m), w_m)
        \<and> (\<forall>m' \<in> set post. \<forall>u. \<exists>e u'. mw_after_perception m' s_m c_m u = (Inl (e, c_m), u')) \<longrightarrow>
      fst (process_after_perception (pre @ m # post) s c w) = (s_m, c_m))
   \<and> (mw_before_decision m s c w = (Inl (e, c'), w') \<longrightarrow>
      process_before_decision (m # ms) s c w =
        process_before_decision ms s c'
          (logger ERROR (error_in_middleware m ''process_before_decision'' e) w'))
   \<and> (process_before_decision pre s c w = ((s_pre, c_pre), w_pre)
        \<and> mw_before_decision m s_pre c_pre w_pre = (Inr (s_m, c_m), w_m)
        \<and> (\<forall>m' \<in> set post. \<forall>u. \<exists>e u'. mw_before_decision m' s_m c_m u = (Inl (e, c_m), u')) \<longrightarrow>
      fst (process_before_decision (pre @ m # post) s c w) = (s_m, c_m))
   \<and> (mw_after_decision m a s c w = (Inl (e, c'), w') \<longrightarrow>
      process_after_decision (m # ms) a s c w =
        process_after_decision ms a s c'
          (logger ERROR (error_in_middleware m ''process_after_decision'' e) w'))
   \<and> (process_after_decision pre a s c w = ((a_pre, s_pre, c_pre), w_pre) \<and> a_pre \<noteq> JNone
        \<and> mw_after_decision m a_pre s_pre c_pre w_pre = (Inr (a_m, s_m, c_m), w_m)
        \<and> (\<forall>m' \<in> set post. \<forall>u. \<exists>e u'. mw_after_decision m' a_m s_m c_m u = (Inl (e, c_m), u')) \<longrightarrow>
      fst (process_after_decision (pre @ m # post) a s c w) = (a_m, s_m, c_m))
   \<and> (mw_before_execution m a c w = (Inl (e, c'), w') \<longrightarrow>
      process_before_execution (m # ms) a c w =
        process_before_execution ms a c'
          (logger ERROR (error_in_middleware m ''process_before_execution'' e) w'))
   \<and> (process_before_execution pre a c w = ((a_pre, c_pre), w_pre) \<and> a_pre \<noteq> JNone
        \<and> mw_before_execution m a_pre c_pre w_pre = (Inr (a_m, c_m), w_m)
        \<and> (\<forall>m' \<in> set post. \<forall>u. \<exists>e u'. mw_before_execution m' a_m c_m u = (Inl (e, c_m), u')) \<longrightarrow>
      fst (process_before_execution (pre @ m # post) a c w) = (a_m, c_m))
   \<and> (mw_after_execution m r a c w = (Inl (e, c'), w') \<longrightarrow>
      process_after_execution (m # ms) r a c w =
        process_after_execution ms r a c'
          (logger ERROR (error_in_middleware m ''process_after_execution'' e) w'))
   \<and> (process_after_execution pre r a c w = ((r_pre, a_pre, c_pre), w_pre)
        \<and> mw_after_execution m r_pre a_pre c_pre w_pre = (Inr (r_m, a_m, c_m), w_m)
        \<and> (\<forall>m' \<in> set post. \<forall>u. \<exists>e u'. mw_after_execution m' r_m a_m c_m u = (Inl (e, c_m), u')) \<longrightarrow>
      fst (process_after_execution (pre @ m # post) r a c w) = (r_m, a_m, c_m))"
proof (intro conjI impI)
  assume "process_before_perception pre c w = (c_pre, w_pre)
        \<and> mw_before_perception m c_pre w_pre = (Inr c_m, w_m)
        \<and> (\<forall>m' \<in> set post. \<forall>u. \<exists>e u'. mw_before_perception m' c_m u = (Inl (e, c_m), u'))"
  then show "fst (process_before_perception (pre @ m # post) c w) = c_m"
    using before_perception_last_success by blast
next
  assume "process_after_perception pre s c w = ((s_pre, c_pre), w_pre)
        \<and> mw_after_perception m s_pre c_pre w_pre = (Inr (s_m, c_m), w_m)
        \<and> (\<forall>m' \<in> set post. \<forall>u. \<exists>e u'. mw_after_perception m' s_m c_m u = (Inl (e, c_m), u'))"
  then show "fst (process_after_perception (pre @ m # post) s c w) = (s_m, c_m)"
    using after_perception_last_success by blast
next
  assume "process_before_decision pre s c w = ((s_pre, c_pre), w_pre)
        \<and> mw_before_decision m s_pre c_pre w_pre = (Inr (s_m, c_m), w_m)
        \<and> (\<forall>m' \<in> set post. \<forall>u. \<exists>e u'. mw_before_decision m' s_m c_m u = (Inl (e, c_m), u'))"
  then show "fst (process_before_decision (pre @ m # post) s c w) = (s_m, c_m)"
    using before_decision_last_success by blast
next
  assume "process_after_decision pre a s c w = ((a_pre, s_pre, c_pre), w_pre) \<and> a_pre \<noteq> JNone
        \<and> mw_after_decision m a_pre s_pre c_pre w_pre = (Inr (a_m, s_m, c_m), w_m)
        \<and> (\<forall>m' \<in> set post. \<forall>u. \<exists>e u'. mw_after_decision m' a_m s_m c_m u = (Inl (e, c_m), u'))"
  then show "fst (process_after_decision (pre @ m # post) a s c w) = (a_m, s_m, c_m)"
    using after_decision_last_success by blast
next
  assume "process_before_execution pre a c w = ((a_pre, c_pre), w_pre) \<and> a_pre \<noteq> JNone
        \<and> mw_before_execution m a_pre c_pre w_pre = (Inr (a_m, c_m), w_m)
        \<and> (\<forall>m' \<in> set post. \<forall>u. \<exists>e u'. mw_before_execution m' a_m c_m u = (Inl (e, c_m), u'))"
  then show "fst (process_before_execution (pre @ m # post) a c w) = (a_m, c_m)"
    using before_execution_last_success by blast
next
  assume "process_after_execution pre r a c w = ((r_pre, a_pre, c_pre), w_pre)
        \<and> mw_after_execution m r_pre a_pre c_pre w_pre = (Inr (r_m, a_m, c_m), w_m)
        \<and> (\<forall>m' \<in> set post. \<forall>u. \<exists>e u'. mw_after_execution m' r_m a_m c_m u = (Inl (e, c_m), u'))"
  then show "fst (process_after_execution (pre @ m # post) r a c w) = (r_m, a_m, c_m)"
    using after_execution_last_success by blast
qed simp_all
text \<open>
  The amended claim on chains of a tagging middleware and one that raises at once: in
  every phase the raising middleware is skipped with an error in the log, and a chain that
  ends with the raising middleware returns what the tagging middleware before it
  returned.
\<close>

theorem middleware_error_isolation_witness:
  "process_before_perception [RaisingMiddleware ''r'', TaggingMiddleware ''t''] ctx0 world0
     = process_before_perception [TaggingMiddleware ''t''] ctx0
         (logger ERROR ''Error in middleware r process_before_perception: boom'' world0)
   \<and> fst (process_before_perception [TaggingMiddleware ''t'', RaisingMiddleware ''r'']
            ctx0 world0) = ctx0\<lparr>c_task := Some ''t''\<rparr>
   \<and> process_after_perception [RaisingMiddleware ''r'', TaggingMiddleware ''t'']
        screen_state ctx0 world0
     = process_after_perception [TaggingMiddleware ''t''] screen_state ctx0
         (logger ERROR ''Error in middleware r process_after_perception: boom'' world0)
   \<and> fst (process_after_perception [TaggingMiddleware ''t'', RaisingMiddleware ''r'']
            screen_state ctx0 world0) = (screen_state, ctx0\<lparr>c_task := Some ''t''\<rparr>)
   \<and> process_before_decision [RaisingMiddleware ''r'', TaggingMiddleware ''t'']
        screen_state ctx0 world0
     = process_before_decision [TaggingMiddleware ''t''] screen_state ctx0
         (logger ERROR ''Error in middleware r process_before_decision: boom'' world0)
   \<and> fst (process_before_decision [TaggingMiddleware ''t'', RaisingMiddleware ''r'']
            screen_state ctx0 world0) = (screen_state, ctx0\<lparr>c_task := Some ''t''\<rparr>)
   \<and> process_after_decision [RaisingMiddleware ''r'', TaggingMiddleware ''t'']
        click_1_1 screen_state ctx0 world0
     = process_after_decision [TaggingMiddleware ''t''] click_1_1 screen_state ctx0
         (logger ERROR ''Error in middleware r process_after_decision: boom'' world0)
   \<and> fst (process_after_decision [TaggingMiddleware ''t'', RaisingMiddleware ''r'']
            click_1_1 screen_state ctx0 world0)
       = (click_1_1, screen_state, ctx0\<lparr>c_task := Some ''t''\<rparr>)
   \<and> process_before_execution [RaisingMiddleware ''r'', TaggingMiddleware ''t'']
        click_1_1 ctx0 world0
     = process_before_execution [TaggingMiddleware ''t''] click_1_1 ctx0
         (logger ERROR ''Error in middleware r process_before_execution: boom'' world0)
   \<and> fst (process_before_execution [TaggingMiddleware ''t'', RaisingMiddleware ''r'']
            click_1_1 ctx0 world0) = (click_1_1, ctx0\<lparr>c_task := Some ''t''\<rparr>)
   \<and> process_after_execution [RaisingMiddleware ''r'', TaggingMiddleware ''t'']
        ok_result click_1_1 ctx0 world0
     = process_after_execution [TaggingMiddleware ''t''] ok_result click_1_1 ctx0
         (logger ERROR ''Error in middleware r process_after_execution: boom'' world0)
   \<and> fst (process_after_execution [TaggingMiddleware ''t'', RaisingMiddleware ''r'']
            ok_result click_1_1 ctx0 world0)
       = (ok_result, click_1_1, ctx0\<lparr>c_task := Some ''t''\<rparr>)"
proof -
  have not_none: "click_1_1 \<noteq> JNone"
    by (simp add: click_1_1_def)
  note raising =
    middleware_error_isolation
      [where m = "RaisingMiddleware ''r''" and ms = "[TaggingMiddleware ''t'']"
         and e = "Exception ''boom''" and w = world0 and w' = world0 and c' = ctx0
         and c = ctx0 and s = screen_state and a = click_1_1 and r = ok_result
         and pre = "[]" and post = "[]" and c_pre = ctx0 and c_m = ctx0
         and w_pre = world0 and w_m = world0 and s_pre = screen_state and s_m = screen_state
         and a_pre = click_1_1 and a_m = click_1_1 and r_pre = ok_result and r_m = ok_result]
  note tagging =
    middleware_error_isolation
      [where m = "TaggingMiddleware ''t''" and ms = "[]"
         and e = "Exception ''boom''" and w = world0 and w' = world0 and c' = ctx0
         and c = ctx0 and s = screen_state and a = click_1_1 and r = ok_result
         and pre = "[]" and post = "[RaisingMiddleware ''r'']"
         and c_pre = ctx0 and c_m = "ctx0\<lparr>c_task := Some ''t''\<rparr>"
         and w_pre = world0 and w_m = world0 and s_pre = screen_state and s_m = screen_state
         and a_pre = click_1_1 and a_m = click_1_1 and r_pre = ok_result and r_m = ok_result]
  have skipped_before_perception:
    "process_before_perception (RaisingMiddleware ''r'' # [TaggingMiddleware ''t'']) ctx0 world0
       = process_before_perception [TaggingMiddleware ''t''] ctx0
           (logger ERROR (error_in_middleware (RaisingMiddleware ''r'' :: world middleware)
              ''process_before_perception'' (Exception ''boom'')) world0)"
    by (rule raising [THEN conjunct1, THEN mp]) (simp add: RaisingMiddleware_def)
  have last_before_perception:
    "fst (process_before_perception ([] @ TaggingMiddleware ''t'' # [RaisingMiddleware ''r''])
            ctx0 world0) = ctx0\<lparr>c_task := Some ''t''\<rparr>"
    by (rule tagging [THEN conjunct2, THEN conjunct1, THEN mp])
       (simp add: TaggingMiddleware_def RaisingMiddleware_def not_none)
  have skipped_after_perception:
    "process_after_perception (RaisingMiddleware ''r'' # [TaggingMiddleware ''t'']) screen_state ctx0 world0
       = process_after_perception [TaggingMiddleware ''t''] screen_state ctx0
           (logger ERROR (error_in_middleware (RaisingMiddleware ''r'' :: world middleware)
              ''process_after_perception'' (Exception ''boom'')) world0)"
    by (rule raising [THEN conjunct2, THEN conjunct2, THEN conjunct1, THEN mp]) (simp add: RaisingMiddleware_def)
  have last_after_perception:
    "fst (process_after_perception ([] @ TaggingMiddleware ''t'' # [RaisingMiddleware ''r''])
            screen_state ctx0 world0) = (screen_state, ctx0\<lparr>c_task := Some ''t''\<rparr>)"
    by (rule tagging [THEN conjunct2, THEN conjunct2, THEN conjunct2, THEN conjunct1, THEN mp])
       (simp add: TaggingMiddleware_def RaisingMiddleware_def not_none)
  have skipped_before_decision:
    "process_before_decision (RaisingMiddleware ''r'' # [TaggingMiddleware ''t'']) screen_state ctx0 world0
       = process_before_decision [TaggingMiddleware ''t''] screen_state ctx0
           (logger ERROR (error_in_middleware (RaisingMiddleware ''r'' :: world middleware)
              ''process_before_decision'' (Exception ''boom'')) world0)"
    by (rule raising [THEN conjunct2, THEN conjunct2, THEN conjunct2, THEN conjunct2, THEN conjunct1, THEN mp]) (simp add: RaisingMiddleware_def)
  have last_before_decision:
    "fst (process_before_decision ([] @ TaggingMiddleware ''t'' # [RaisingMiddleware ''r''])
            screen_state ctx0 world0) = (screen_state, ctx0\<lparr>c_task := Some ''t''\<rparr>)"
    by (rule tagging [THEN conjunct2, THEN conjunct2, THEN conjunct2, THEN conjunct2, THEN conjunct2, THEN conjunct1, THEN mp])
       (simp add: TaggingMiddleware_def RaisingMiddleware_def not_none)
  have skipped_after_decision:
    "process_after_decision (RaisingMiddleware ''r'' # [TaggingMiddleware ''t'']) click_1_1 screen_state ctx0 world0
       = process_after_decision [TaggingMiddleware ''t''] click_1_1 screen_state ctx0
           (logger ERROR (error_in_middleware (RaisingMiddleware ''r'' :: world middleware)
              ''process_after_decision'' (Exception ''boom'')) world0)"
    by (rule raising [THEN conjunct2, THEN conjunct2, THEN conjunct2, THEN conjunct2, THEN conjunct2, THEN conjunct2, THEN conjunct1, THEN mp]) (simp add: RaisingMiddleware_def)
  have last_after_decision:
    "fst (process_after_decision ([] @ TaggingMiddleware ''t'' # [RaisingMiddleware ''r''])
            click_1_1 screen_state ctx0 world0) = (click_1_1, screen_state, ctx0\<lparr>c_task := Some ''t''\<rparr>)"
    by (rule tagging [THEN conjunct2, THEN conjunct2, THEN conjunct2, THEN conjunct2, THEN conjunct2, THEN conjunct2, THEN conjunct2, THEN conjunct1, THEN mp])
       (simp add: TaggingMiddleware_def RaisingMiddleware_def not_none)
  have skipped_before_execution:
    "process_before_execution (RaisingMiddleware ''r'' # [TaggingMiddleware ''t'']) click_1_1 ctx0 world0
       = process_before_execution [TaggingMiddleware ''t''] click_1_1 ctx0
           (logger ERROR (error_in_middleware (RaisingMiddleware ''r'' :: world middleware)
              ''process_before_execution'' (Exception ''boom'')) world0)"
    by (rule raising [THEN conjunct2, THEN conjunct2, THEN conjunct2, THEN conjunct2, THEN conjunct2, THEN conjunct2, THEN conjunct2, THEN conjunct2, THEN conjunct1, THEN mp]) (simp add: RaisingMiddleware_def)
  have last_before_execution:
    "fst (process_before_execution ([] @ TaggingMiddleware ''t'' # [RaisingMiddleware ''r''])
            click_1_1 ctx0 world0) = (click_1_1, ctx0\<lparr>c_task := Some ''t''\<rparr>)"
    by (rule tagging [THEN conjunct2, THEN conjunct2, THEN conjunct2, THEN conjunct2, THEN conjunct2, THEN conjunct2, THEN conjunct2, THEN conjunct2, THEN conjunct2, THEN conjunct1, THEN mp])
       (simp add: TaggingMiddleware_def RaisingMiddleware_def not_none)
  have skipped_after_execution:
    "process_after_execution (RaisingMiddleware ''r'' # [TaggingMiddleware ''t'']) ok_result click_1_1 ctx0 world0
       = process_after_execution [TaggingMiddleware ''t''] ok_result click_1_1 ctx0
           (logger ERROR (error_in_middleware (RaisingMiddleware ''r'' :: world middleware)
              ''process_after_execution'' (Exception ''boom'')) world0)"
    by (rule raising [THEN conjunct2, THEN conjunct2, THEN conjunct2, THEN conjunct2, THEN conjunct2, THEN conjunct2, THEN conjunct2, THEN conjunct2, THEN conjunct2, THEN conjunct2, THEN conjunct1, THEN mp]) (simp add: RaisingMiddleware_def)
  have last_after_execution:
    "fst (process_after_execution ([] @ TaggingMiddleware ''t'' # [RaisingMiddleware ''r''])
            ok_result click_1_1 ctx0 world0) = (ok_result, click_1_1, ctx0\<lparr>c_task := Some ''t''\<rparr>)"
    by (rule tagging [THEN conjunct2, THEN conjunct2, THEN conjunct2, THEN conjunct2, THEN conjunct2, THEN conjunct2, THEN conjunct2, THEN conjunct2, THEN conjunct2, THEN conjunct2, THEN conjunct2, THEN mp])
       (simp add: TaggingMiddleware_def RaisingMiddleware_def not_none)
  have msg: "error_in_middleware (RaisingMiddleware ''r'') phase (Exception ''boom'')
      = ''Error in middleware r '' @ phase @ '': boom''" for phase
    by (simp add: error_in_middleware_def RaisingMiddleware_def)
  show ?thesis
    using skipped_before_perception skipped_after_perception skipped_before_decision skipped_after_decision skipped_before_execution skipped_after_execution
      last_before_perception last_after_perception last_before_decision last_after_decision last_before_execution last_after_execution
    by (simp only: msg append.simps)
qed

text \<open>
  Claim C3 as stated fails: a middleware that raises is not always a no-op, and the output
  of a phase is not always the output of the last middleware that returned. A middleware
  that writes its tag into the context and then raises leaves the tag there, behind a
  middleware that returned another tag. And the tracking middleware of the repository
  itself, run after the execution of an action whose type tag is a list, appends its
  record to the history and then raises in \<^verbatim>\<open>_update_stats\<close>: the phase, whose only
  middleware has raised, returns a context with one more history entry than it was
  given.
\<close>

theorem failing_middleware_counterexample:
  "fst (mw_before_perception (TaggingMiddleware ''t'') ctx0 world0)
     = Inr (ctx0\<lparr>c_task := Some ''t''\<rparr>)
   \<and> fst (mw_before_perception (TagThenRaise ''x'') (ctx0\<lparr>c_task := Some ''t''\<rparr>) world0)
     = Inl (Exception ''boom'', ctx0\<lparr>c_task := Some ''x''\<rparr>)
   \<and> fst (process_before_perception [TaggingMiddleware ''t'', TagThenRaise ''x''] ctx0 world0)
     \<noteq> ctx0\<lparr>c_task := Some ''t''\<rparr>
   \<and> fst (mw_after_execution (StateTrackingMiddleware 10 True True) ok_result list_typed_action
           (ctx0\<lparr>c_current_action :=
              Some (new_action_record list_typed_action screen_state ctx0 0)\<rparr>)
           (initial_world 0 ''default''))
     = Inl (Exception ''unhashable type'',
            ctx0\<lparr>c_current_action :=
                   Some (new_action_record list_typed_action screen_state ctx0 0),
                 c_history :=
                   [ActionRecord (new_action_record list_typed_action screen_state ctx0 0)
                      ok_result None]\<rparr>)
   \<and> c_history (snd (snd (fst
         (process_after_execution [StateTrackingMiddleware 10 True True] ok_result
            list_typed_action
            (ctx0\<lparr>c_current_action :=
               Some (new_action_record list_typed_action screen_state ctx0 0)\<rparr>)
            (initial_world 0 ''default'')))))
     = [ActionRecord (new_action_record list_typed_action screen_state ctx0 0) ok_result None]
   \<and> c_history (ctx0\<lparr>c_current_action :=
         Some (new_action_record list_typed_action screen_state ctx0 0)\<rparr>) = []"
  by (simp add: TaggingMiddleware_def TagThenRaise_def StateTrackingMiddleware_def
        Middleware_def tracking_after_execution_def update_stats_def list_typed_action_def
        new_action_record_def trim_history_def ctx0_def initial_world_def
        dict_get_default_def Let_def)

section \<open>Rejection of an action\<close>

text \<open>
  Claim C5. In the phases \<^verbatim>\<open>after_decision\<close> and \<^verbatim>\<open>before_execution\<close>, as soon as a
  middleware returns \<^verbatim>\<open>None\<close> as the action, the manager returns that middleware's
  outputs with a warning in the log; the middlewares behind it (\<open>post\<close>) are not called.
  The loop of \<^verbatim>\<open>step\<close> then goes on with the next element: the executor is not invoked
  (\<open>calls\<close> is handed on unchanged) and the loop appends nothing to the history (the
  context is handed on as the phase returned it).
\<close>

theorem rejected_action_is_skipped:
  "(mw_after_decision m a s c w = (Inr (JNone, s_m, c_m), w_m) \<longrightarrow>
      process_after_decision (m # post) a s c w =
        ((JNone, s_m, c_m), logger WARNING (rejected_by m) w_m))
   \<and> (mw_before_execution m a c w = (Inr (JNone, c_m), w_m) \<longrightarrow>
      process_before_execution (m # post) a c w =
        ((JNone, c_m), logger WARNING (rejected_by m) w_m))
   \<and> (process_after_decision pre a s c w = ((a_pre, s_pre, c_pre), w_pre) \<and> a_pre \<noteq> JNone
        \<and> mw_after_decision m a_pre s_pre c_pre w_pre = (Inr (JNone, s_m, c_m), w_m) \<longrightarrow>
      process_after_decision (pre @ m # post) a s c w =
        ((JNone, s_m, c_m), logger WARNING (rejected_by m) w_m))
   \<and> (process_before_execution pre a c w = ((a_pre, c_pre), w_pre) \<and> a_pre \<noteq> JNone
        \<and> mw_before_execution m a_pre c_pre w_pre = (Inr (JNone, c_m), w_m) \<longrightarrow>
      process_before_execution (pre @ m # post) a c w =
        ((JNone, c_m), logger WARNING (rejected_by m) w_m))
   \<and> (process_after_decision (middlewares ag) act state c w = ((JNone, s_d, c_d), w_d) \<longrightarrow>
      run_actions ag (act # acts) state c final_result calls w =
        run_actions ag acts s_d c_d final_result calls (logger WARNING msg_rejected w_d))
   \<and> (process_after_decision (middlewares ag) act state c w = ((a_d, s_d, c_d), w_d)
        \<and> a_d \<noteq> JNone \<and> \<not> should_stop a_d
        \<and> process_before_execution (middlewares ag) a_d c_d w_d = ((JNone, c_x), w_x) \<longrightarrow>
      run_actions ag (act # acts) state c final_result calls w =
        run_actions ag acts s_d c_x final_result calls
          (logger WARNING msg_rejected_before_execution w_x))"
proof (intro conjI impI)
  assume "process_after_decision pre a s c w = ((a_pre, s_pre, c_pre), w_pre) \<and> a_pre \<noteq> JNone
        \<and> mw_after_decision m a_pre s_pre c_pre w_pre = (Inr (JNone, s_m, c_m), w_m)"
  then show "process_after_decision (pre @ m # post) a s c w =
        ((JNone, s_m, c_m), logger WARNING (rejected_by m) w_m)"
    by (simp add: process_after_decision_append)
next
  assume "process_before_execution pre a c w = ((a_pre, c_pre), w_pre) \<and> a_pre \<noteq> JNone
        \<and> mw_before_execution m a_pre c_pre w_pre = (Inr (JNone, c_m), w_m)"
  then show "process_before_execution (pre @ m # post) a c w =
        ((JNone, c_m), logger WARNING (rejected_by m) w_m)"
    by (simp add: process_before_execution_append)
qed simp_all

text \<open>
  The claim on chains with a rejecting middleware, and on a loop over two clicks that
  are both rejected: nothing is executed and nothing is recorded.
\<close>

theorem rejected_action_is_skipped_witness:
  "process_after_decision
      ([TaggingMiddleware ''t''] @ RejectAfterDecision ''n'' # [RaisingMiddleware ''r''])
      click_1_1 screen_state ctx0 world0
     = ((JNone, screen_state, ctx0\<lparr>c_task := Some ''t''\<rparr>),
        logger WARNING ''Action rejected by middleware: n'' world0)
   \<and> process_before_execution
      ([TaggingMiddleware ''t''] @ RejectBeforeExecution ''n'' # [RaisingMiddleware ''r''])
      click_1_1 ctx0 world0
     = ((JNone, ctx0\<lparr>c_task := Some ''t''\<rparr>),
        logger WARNING ''Action rejected by middleware: n'' world0)
   \<and> run_actions (scripted_agent click_1_1 True [RejectAfterDecision ''n''] 3)
        [click_1_1, click_1_1] screen_state ctx0 False [] world0
     = (False, ctx0, [],
        logger WARNING msg_rejected
          (logger WARNING ''Action rejected by middleware: n''
            (logger WARNING msg_rejected
              (logger WARNING ''Action rejected by middleware: n'' world0))))
   \<and> run_actions (scripted_agent click_1_1 True [RejectBeforeExecution ''n''] 3)
        [click_1_1, click_1_1] screen_state ctx0 False [] world0
     = (False, ctx0, [],
        logger WARNING msg_rejected_before_execution
          (logger WARNING ''Action rejected by middleware: n''
            (logger WARNING msg_rejected_before_execution
              (logger WARNING ''Action rejected by middleware: n'' world0))))"
proof -
  have not_none: "click_1_1 \<noteq> JNone" and not_stop: "\<not> should_stop click_1_1"
    by (simp_all add: click_1_1_def dict_get_def)
  have name: "rejected_by (RejectAfterDecision ''n'') = ''Action rejected by middleware: n''"
    "rejected_by (RejectBeforeExecution ''n'') = ''Action rejected by middleware: n''"
    by (simp_all add: rejected_by_def RejectAfterDecision_def RejectBeforeExecution_def
          Middleware_def)
  have chain_after_decision:
    "process_after_decision
      ([TaggingMiddleware ''t''] @ RejectAfterDecision ''n'' # [RaisingMiddleware ''r''])
      click_1_1 screen_state ctx0 world0
     = ((JNone, screen_state, ctx0\<lparr>c_task := Some ''t''\<rparr>),
        logger WARNING (rejected_by (RejectAfterDecision ''n'' :: world middleware)) world0)"
    by (rule rejected_action_is_skipped
          [where pre = "[TaggingMiddleware ''t'']" and a_pre = click_1_1
             and s_pre = screen_state and c_pre = "ctx0\<lparr>c_task := Some ''t''\<rparr>"
             and w_pre = world0,
           THEN conjunct2, THEN conjunct2, THEN conjunct1, THEN mp])
       (simp add: TaggingMiddleware_def RejectAfterDecision_def Middleware_def not_none)
  have chain_before_execution:
    "process_before_execution
      ([TaggingMiddleware ''t''] @ RejectBeforeExecution ''n'' # [RaisingMiddleware ''r''])
      click_1_1 ctx0 world0
     = ((JNone, ctx0\<lparr>c_task := Some ''t''\<rparr>),
        logger WARNING (rejected_by (RejectBeforeExecution ''n'' :: world middleware)) world0)"
    by (rule rejected_action_is_skipped
          [where pre = "[TaggingMiddleware ''t'']" and a_pre = click_1_1
             and c_pre = "ctx0\<lparr>c_task := Some ''t''\<rparr>" and w_pre = world0,
           THEN conjunct2, THEN conjunct2, THEN conjunct2, THEN conjunct1, THEN mp])
       (simp add: TaggingMiddleware_def RejectBeforeExecution_def Middleware_def not_none)
  have phase_d: "process_after_decision
        (middlewares (scripted_agent click_1_1 True [RejectAfterDecision ''n''] 3))
        click_1_1 screen_state ctx0 w
      = ((JNone, screen_state, ctx0), logger WARNING ''Action rejected by middleware: n'' w)"
    for w :: world
    by (simp add: scripted_agent_def RejectAfterDecision_def Middleware_def rejected_by_def)
  have loop_after_decision:
    "run_actions (scripted_agent click_1_1 True [RejectAfterDecision ''n''] 3)
        (click_1_1 # acts) screen_state ctx0 False [] w
     = run_actions (scripted_agent click_1_1 True [RejectAfterDecision ''n''] 3)
        acts screen_state ctx0 False []
        (logger WARNING msg_rejected (logger WARNING ''Action rejected by middleware: n'' w))"
    for acts and w :: world
    by (rule rejected_action_is_skipped
          [THEN conjunct2, THEN conjunct2, THEN conjunct2, THEN conjunct2, THEN conjunct1,
           THEN mp])
       (rule phase_d)
  have phase_x: "process_after_decision
        (middlewares (scripted_agent click_1_1 True [RejectBeforeExecution ''n''] 3))
        click_1_1 screen_state ctx0 w = ((click_1_1, screen_state, ctx0), w)
      \<and> click_1_1 \<noteq> JNone \<and> \<not> should_stop click_1_1
      \<and> process_before_execution
        (middlewares (scripted_agent click_1_1 True [RejectBeforeExecution ''n''] 3))
        click_1_1 ctx0 w
      = ((JNone, ctx0), logger WARNING ''Action rejected by middleware: n'' w)"
    for w :: world
    using not_none not_stop
    by (simp add: scripted_agent_def RejectBeforeExecution_def Middleware_def rejected_by_def)
  have loop_before_execution:
    "run_actions (scripted_agent click_1_1 True [RejectBeforeExecution ''n''] 3)
        (click_1_1 # acts) screen_state ctx0 False [] w
     = run_actions (scripted_agent click_1_1 True [RejectBeforeExecution ''n''] 3)
        acts screen_state ctx0 False []
        (logger WARNING msg_rejected_before_execution
          (logger WARNING ''Action rejected by middleware: n'' w))"
    for acts and w :: world
    by (rule rejected_action_is_skipped
          [THEN conjunct2, THEN conjunct2, THEN conjunct2, THEN conjunct2, THEN conjunct2,
           THEN mp])
       (rule phase_x)
  show ?thesis
    using chain_after_decision chain_before_execution
    by (simp only: name loop_after_decision loop_before_execution run_actions.simps(1))
qed

section \<open>The step and the run loop\<close>

lemma run_loop_stop:
  assumes "step ag (c\<lparr>c_iteration := iteration + 1, c_current_time := Some (now w)\<rparr>) calls w
             = (True, c', calls', w')"
  shows "run_loop ag iteration c calls w = (iteration + 1, c', calls', w')"
  by (subst run_loop.simps) (simp add: assms)

lemma run_loop_limit:
  assumes "step ag (c\<lparr>c_iteration := iteration + 1, c_current_time := Some (now w)\<rparr>) calls w
             = (False, c', calls', w')"
    and "iteration + 1 \<ge> max_iterations ag"
  shows "run_loop ag iteration c calls w = (iteration + 1, c', calls', w')"
  by (subst run_loop.simps) (simp add: assms)

lemma run_loop_continue:
  assumes "step ag (c\<lparr>c_iteration := iteration + 1, c_current_time := Some (now w)\<rparr>) calls w
             = (False, c', calls', w')"
    and "iteration + 1 < max_iterations ag"
  shows "run_loop ag iteration c calls w =
           run_loop ag (iteration + 1) c' calls'
             (if iteration_delay ag > 0 then sleep (iteration_delay ag) w' else w')"
  using assms by (subst run_loop.simps) simp

text \<open>Once the flag of the loop over the actions is set, it stays set.\<close>

lemma run_actions_flag_stays:
  "fst (run_actions ag acts s c True calls w) = True"
proof (induction acts arbitrary: s c calls w)
  case Nil
  show ?case by simp
next
  case (Cons act acts)
  show ?case
    by (simp add: Cons.IH Let_def split: prod.splits sum.splits json.splits)
qed

lemma stop_action_returns:
  assumes "process_after_decision (middlewares ag) act state c w = ((JDict d, s_d, c_d), w_d)"
    and "dict_get d ''type'' = JStr ''stop''"
    and "process_after_execution (middlewares ag)
           \<lparr>r_success = True, r_timestamp = now w_d, r_error = None,
            r_message = Some (dict_get_default d ''reason'' (JStr msg_task_done))\<rparr>
           (JDict d) c_d w_d = ((r_x, a_x, c_x), w_x)"
  shows "run_actions ag (act # acts) state c final_result calls w =
           (True, c_x\<lparr>c_history := c_history c_x @ [HistoryItem a_x r_x (r_timestamp r_x)]\<rparr>,
            calls, w_x)"
  using assms by simp

lemma executed_action_sets_flag:
  assumes "process_after_decision (middlewares ag) act state c w = ((a_d, s_d, c_d), w_d)"
    and "a_d \<noteq> JNone" and "\<not> should_stop a_d"
    and "process_before_execution (middlewares ag) a_d c_d w_d = ((a_x, c_x), w_x)"
    and "a_x \<noteq> JNone"
    and "executor_execute ag a_x w_x = (Inr True, w_e)"
  shows "fst (run_actions ag (act # acts) state c final_result calls w) = True"
  using assms by (simp add: run_actions_flag_stays Let_def split: prod.splits)

text \<open>One step of a scripted agent without middlewares, for three decisions.\<close>

lemma scripted_step_click:
  "step (scripted_agent click_1_1 outcome [] limit) c calls w =
     (outcome,
      c\<lparr>c_history := c_history c @
          [HistoryItem click_1_1
             \<lparr>r_success = outcome, r_timestamp = now w,
              r_error = (if outcome then None else Some msg_exec_failed), r_message = None\<rparr>
             (now w)]\<rparr>,
      calls @ [(now w, click_1_1)], w)"
  by (simp add: step_def scripted_agent_def normalize_def click_1_1_def dict_get_def)

lemma scripted_step_move_stop:
  "step (scripted_agent (JList (move_0_0 # stop_done # rest)) outcome [] limit) c calls w =
     (True,
      c\<lparr>c_history := c_history c @
          [HistoryItem move_0_0
             \<lparr>r_success = outcome, r_timestamp = now w,
              r_error = (if outcome then None else Some msg_exec_failed), r_message = None\<rparr>
             (now w),
           HistoryItem stop_done
             \<lparr>r_success = True, r_timestamp = now w, r_error = None,
              r_message = Some (JStr ''done'')\<rparr>
             (now w)]\<rparr>,
      calls @ [(now w, move_0_0)], w)"
  by (simp add: step_def scripted_agent_def normalize_def move_0_0_def stop_done_def
        dict_get_def dict_get_default_def)

lemma scripted_agent_fields:
  "auto_prompt (scripted_agent decision outcome mws limit) = True"
  "default_prompt_name (scripted_agent decision outcome mws limit) = ''default''"
  "max_iterations (scripted_agent decision outcome mws limit) = limit"
  "iteration_delay (scripted_agent decision outcome mws limit) = 1 / 2"
  "middlewares (scripted_agent decision outcome mws limit) = mws"
  by (simp_all add: scripted_agent_def)

lemma scripted_run_move_stop:
  "run (scripted_agent (JList (move_0_0 # stop_done # rest)) outcome [] limit) task w =
     (\<lparr>iterations = 1, elapsed_time = 0, sm_task = task,
       sm_history =
         [HistoryItem move_0_0
            \<lparr>r_success = outcome, r_timestamp = now w,
             r_error = (if outcome then None else Some msg_exec_failed), r_message = None\<rparr>
            (now w),
          HistoryItem stop_done
            \<lparr>r_success = True, r_timestamp = now w, r_error = None,
             r_message = Some (JStr ''done'')\<rparr>
            (now w)]\<rparr>,
      \<lparr>c_history =
         [HistoryItem move_0_0
            \<lparr>r_success = outcome, r_timestamp = now w,
             r_error = (if outcome then None else Some msg_exec_failed), r_message = None\<rparr>
            (now w),
          HistoryItem stop_done
            \<lparr>r_success = True, r_timestamp = now w, r_error = None,
             r_message = Some (JStr ''done'')\<rparr>
            (now w)],
        c_start_time = now w, c_iteration = 1, c_prompt_name = Some ''default'',
        c_task = Some task, c_current_time = Some (now w), c_current_action = None,
        c_stats = None\<rparr>,
      [(now w, move_0_0)], w)"
  by (simp add: run_def setup_agent_def scripted_agent_fields Let_def
        run_loop_stop [OF scripted_step_move_stop])

lemma scripted_run_click:
  "run (scripted_agent click_1_1 True [] limit) task w =
     (\<lparr>iterations = 1, elapsed_time = 0, sm_task = task,
       sm_history =
         [HistoryItem click_1_1
            \<lparr>r_success = True, r_timestamp = now w, r_error = None, r_message = None\<rparr>
            (now w)]\<rparr>,
      \<lparr>c_history =
         [HistoryItem click_1_1
            \<lparr>r_success = True, r_timestamp = now w, r_error = None, r_message = None\<rparr>
            (now w)],
        c_start_time = now w, c_iteration = 1, c_prompt_name = Some ''default'',
        c_task = Some task, c_current_time = Some (now w), c_current_action = None,
        c_stats = None\<rparr>,
      [(now w, click_1_1)], w)"
proof -
  have "step (scripted_agent click_1_1 True [] limit) c calls w' =
     (True,
      c\<lparr>c_history := c_history c @
          [HistoryItem click_1_1
             \<lparr>r_success = True, r_timestamp = now w', r_error = None, r_message = None\<rparr>
             (now w')]\<rparr>,
      calls @ [(now w', click_1_1)], w')" for c calls and w' :: "'a world_scheme"
    by (simp add: scripted_step_click)
  then show ?thesis
    by (simp add: run_def setup_agent_def scripted_agent_fields run_loop_stop Let_def)
qed

text \<open>
  Claim C4. When the action that \<^verbatim>\<open>after_decision\<close> returns for an element is a stop
  dictionary, the loop builds the result with \<^verbatim>\<open>success = True\<close> and the reason as
  message (\<open>msg_task_done\<close> when the action has no reason), runs \<^verbatim>\<open>after_execution\<close> on
  it, appends one history item and returns \<^verbatim>\<open>True\<close> at once: the executor is not
  invoked for the stop, and the elements behind it (\<open>acts\<close>) play no part in the outcome.
  The decision \<^verbatim>\<open>[move, stop]\<close> followed by any further elements, on an agent without
  middlewares, ends the run after one iteration with two history items (the move, then
  the stop) and one executor invocation (the move).
\<close>

theorem stop_action_ends_step:
  "(process_after_decision (middlewares ag) act state c w = ((JDict d, s_d, c_d), w_d)
      \<and> dict_get d ''type'' = JStr ''stop''
      \<and> process_after_execution (middlewares ag)
           \<lparr>r_success = True, r_timestamp = now w_d, r_error = None,
            r_message = Some (dict_get_default d ''reason'' (JStr msg_task_done))\<rparr>
           (JDict d) c_d w_d = ((r_x, a_x, c_x), w_x) \<longrightarrow>
    run_actions ag (act # acts) state c final_result calls w =
      (True, c_x\<lparr>c_history := c_history c_x @ [HistoryItem a_x r_x (r_timestamp r_x)]\<rparr>,
       calls, w_x))
   \<and> (case run (scripted_agent (JList (move_0_0 # stop_done # rest)) outcome [] limit) task u
       of (summary, c', calls', u') \<Rightarrow>
         iterations summary = 1
         \<and> sm_history summary =
             [HistoryItem move_0_0
                \<lparr>r_success = outcome, r_timestamp = now u,
                 r_error = (if outcome then None else Some msg_exec_failed),
                 r_message = None\<rparr>
                (now u),
              HistoryItem stop_done
                \<lparr>r_success = True, r_timestamp = now u, r_error = None,
                 r_message = Some (JStr ''done'')\<rparr>
                (now u)]
         \<and> calls' = [(now u, move_0_0)])"
  using stop_action_returns [of ag act state c w d s_d c_d w_d r_x a_x c_x w_x acts
          final_result calls]
  by (simp add: scripted_run_move_stop)

text \<open>
  The claim on the decision \<^verbatim>\<open>[move, stop, click]\<close>: the loop over the three elements
  returns \<^verbatim>\<open>True\<close> with the move and the stop recorded and only the move executed; the
  click behind the stop is neither executed nor recorded.
\<close>

theorem stop_action_ends_step_witness:
  "run_actions (scripted_agent JNone True [] 3) (stop_done # [click_1_1])
      screen_state ctx0 False [] world0
    = (True,
       ctx0\<lparr>c_history :=
         [HistoryItem stop_done
            \<lparr>r_success = True, r_timestamp = 0, r_error = None,
             r_message = Some (JStr ''done'')\<rparr> 0]\<rparr>,
       [], world0)
   \<and> iterations (fst (run (scripted_agent (JList [move_0_0, stop_done, click_1_1]) True [] 3)
          ''task'' world0)) = 1
   \<and> length (sm_history
         (fst (run (scripted_agent (JList [move_0_0, stop_done, click_1_1]) True [] 3)
            ''task'' world0))) = 2"
proof -
  have hyps:
    "process_after_decision (middlewares (scripted_agent JNone True [] 3)) stop_done screen_state
        ctx0 world0
       = ((JDict [(''type'', JStr ''stop''), (''reason'', JStr ''done'')], screen_state, ctx0),
          world0)
     \<and> dict_get [(''type'', JStr ''stop''), (''reason'', JStr ''done'')] ''type'' = JStr ''stop''
     \<and> process_after_execution (middlewares (scripted_agent JNone True [] 3))
           \<lparr>r_success = True, r_timestamp = now world0, r_error = None,
            r_message = Some (dict_get_default [(''type'', JStr ''stop''), (''reason'', JStr ''done'')]
                                ''reason'' (JStr msg_task_done))\<rparr>
           (JDict [(''type'', JStr ''stop''), (''reason'', JStr ''done'')]) ctx0 world0
       = ((\<lparr>r_success = True, r_timestamp = 0, r_error = None,
             r_message = Some (JStr ''done'')\<rparr>, stop_done, ctx0), world0)"
    by (simp add: scripted_agent_fields stop_done_def dict_get_def dict_get_default_def
          world0_def)
  have loop: "run_actions (scripted_agent JNone True [] 3) (stop_done # [click_1_1])
      screen_state ctx0 False [] world0
    = (True,
       ctx0\<lparr>c_history := c_history ctx0 @
         [HistoryItem stop_done
            \<lparr>r_success = True, r_timestamp = 0, r_error = None,
             r_message = Some (JStr ''done'')\<rparr>
            (r_timestamp \<lparr>r_success = True, r_timestamp = 0, r_error = None,
               r_message = Some (JStr ''done'')\<rparr>)]\<rparr>,
       [], world0)"
    by (rule stop_action_ends_step [THEN conjunct1, THEN mp]) (rule hyps)
  have scenario:
    "case run (scripted_agent (JList (move_0_0 # stop_done # [click_1_1])) True [] 3)
            ''task'' world0
       of (summary, c', calls', u') \<Rightarrow>
         iterations summary = 1
         \<and> sm_history summary =
             [HistoryItem move_0_0
                \<lparr>r_success = True, r_timestamp = now world0,
                 r_error = (if True then None else Some msg_exec_failed),
                 r_message = None\<rparr>
                (now world0),
              HistoryItem stop_done
                \<lparr>r_success = True, r_timestamp = now world0, r_error = None,
                 r_message = Some (JStr ''done'')\<rparr>
                (now world0)]
         \<and> calls' = [(now world0, move_0_0)]"
    by (rule stop_action_ends_step [THEN conjunct2])
  from loop scenario show ?thesis
    by (auto simp: ctx0_def split: prod.splits)
qed

text \<open>With an executor that always fails, the same agent runs to the iteration limit.\<close>

lemma scripted_run_failing_click:
  "iterations (fst (run (scripted_agent click_1_1 False [] 3) task w)) = 3
   \<and> length (sm_history (fst (run (scripted_agent click_1_1 False [] 3) task w))) = 3"
proof -
  define ag :: "'a world_scheme agent" where "ag = scripted_agent click_1_1 False [] 3"
  define item where "item t =
    HistoryItem click_1_1
      \<lparr>r_success = False, r_timestamp = t, r_error = Some msg_exec_failed, r_message = None\<rparr> t"
    for t :: real
  have one: "step ag c calls u =
      (False, c\<lparr>c_history := c_history c @ [item (now u)]\<rparr>, calls @ [(now u, click_1_1)], u)"
    for c calls and u :: "'a world_scheme"
    by (simp add: ag_def item_def scripted_step_click)
  have fields: "max_iterations ag = 3" "iteration_delay ag = 1 / 2" "auto_prompt ag"
    "default_prompt_name ag = ''default''"
    by (simp_all add: ag_def scripted_agent_fields)
  have third: "run_loop ag 2 c calls u =
      (3, c\<lparr>c_iteration := 3, c_current_time := Some (now u),
            c_history := c_history c @ [item (now u)]\<rparr>, calls @ [(now u, click_1_1)], u)"
    for c calls and u :: "'a world_scheme"
    using run_loop_limit [where iteration = 2 and c = c and calls = calls and w = u, OF one] by (simp add: fields)
  have second: "run_loop ag 1 c calls u =
      run_loop ag 2
        (c\<lparr>c_iteration := 2, c_current_time := Some (now u),
           c_history := c_history c @ [item (now u)]\<rparr>)
        (calls @ [(now u, click_1_1)]) (sleep (1 / 2) u)"
    for c calls and u :: "'a world_scheme"
    using run_loop_continue [where iteration = 1 and c = c and calls = calls and w = u, OF one] by (simp add: fields)
  have first: "run_loop ag 0 c calls u =
      run_loop ag 1
        (c\<lparr>c_iteration := 1, c_current_time := Some (now u),
           c_history := c_history c @ [item (now u)]\<rparr>)
        (calls @ [(now u, click_1_1)]) (sleep (1 / 2) u)"
    for c calls and u :: "'a world_scheme"
    using run_loop_continue [where iteration = 0 and c = c and calls = calls and w = u, OF one] by (simp add: fields)
  have "iterations (fst (run ag task w)) = 3
      \<and> length (sm_history (fst (run ag task w))) = 3"
    by (simp add: run_def setup_agent_def fields first second third Let_def)
  then show ?thesis by (simp add: ag_def)
qed

text \<open>
  Claim C1 does not hold of the code. An element that is executed with success sets the
  flag that \<^verbatim>\<open>step\<close> returns, and the flag is never reset, so \<^verbatim>\<open>step\<close> returns \<^verbatim>\<open>True\<close>
  without any stop action and \<^verbatim>\<open>run\<close> leaves its loop. With a brain that always returns
  the click at (1, 1), an executor that always succeeds and a limit of three iterations,
  \<^verbatim>\<open>run\<close> ends after one iteration with one history item and one executor invocation,
  where the claim expects three.
\<close>

theorem successful_action_ends_run:
  "(process_after_decision (middlewares ag) act state c w = ((a_d, s_d, c_d), w_d)
      \<and> a_d \<noteq> JNone \<and> \<not> should_stop a_d
      \<and> process_before_execution (middlewares ag) a_d c_d w_d = ((a_x, c_x), w_x)
      \<and> a_x \<noteq> JNone
      \<and> executor_execute ag a_x w_x = (Inr True, w_e) \<longrightarrow>
    fst (run_actions ag (act # acts) state c final_result calls w) = True)
   \<and> (case run (scripted_agent click_1_1 True [] 3) task u of
         (summary, c', calls', u') \<Rightarrow>
           iterations summary = 1 \<and> length (sm_history summary) = 1 \<and> length calls' = 1)"
  using executed_action_sets_flag [of ag act state c w a_d s_d c_d w_d a_x c_x w_x w_e acts
          final_result calls]
  by (simp add: scripted_run_click)

text \<open>
  The behaviour at the input of the claim: one iteration, one history item; and the
  loop over a single click returns \<^verbatim>\<open>True\<close>.
\<close>

theorem successful_action_ends_run_witness:
  "fst (run_actions (scripted_agent click_1_1 True [] 3) (click_1_1 # [])
         screen_state ctx0 False [] world0) = True
   \<and> iterations (fst (run (scripted_agent click_1_1 True [] 3) ''task'' world0)) = 1
   \<and> length (sm_history (fst (run (scripted_agent click_1_1 True [] 3) ''task'' world0))) = 1"
proof -
  have hyps:
    "process_after_decision (middlewares (scripted_agent click_1_1 True [] 3)) click_1_1
        screen_state ctx0 world0 = ((click_1_1, screen_state, ctx0), world0)
     \<and> click_1_1 \<noteq> JNone \<and> \<not> should_stop click_1_1
     \<and> process_before_execution (middlewares (scripted_agent click_1_1 True [] 3)) click_1_1
         ctx0 world0 = ((click_1_1, ctx0), world0)
     \<and> click_1_1 \<noteq> JNone
     \<and> executor_execute (scripted_agent click_1_1 True [] 3) click_1_1 world0
         = (Inr True, world0)"
    by (simp add: scripted_agent_def click_1_1_def dict_get_def)
  have loop: "fst (run_actions (scripted_agent click_1_1 True [] 3) (click_1_1 # [])
         screen_state ctx0 False [] world0) = True"
    by (rule successful_action_ends_run [THEN conjunct1, THEN mp]) (rule hyps)
  have scenario:
    "case run (scripted_agent click_1_1 True [] 3) ''task'' world0 of
       (summary, c', calls', u') \<Rightarrow>
         iterations summary = 1 \<and> length (sm_history summary) = 1 \<and> length calls' = 1"
    by (rule successful_action_ends_run [THEN conjunct2])
  from loop scenario show ?thesis
    by (auto split: prod.splits)
qed

section \<open>Automatic prompt selection\<close>

lemma run_actions_ignores_auto_prompt:
  "run_actions (ag\<lparr>auto_prompt := b\<rparr>) acts s c final_result calls w =
     run_actions ag acts s c final_result calls w"
  by (induction acts arbitrary: s c final_result calls w)
     (simp_all add: Let_def split: prod.splits sum.splits json.splits)

lemma step_ignores_auto_prompt:
  "step (ag\<lparr>auto_prompt := b\<rparr>) c calls w = step ag c calls w"
  by (auto simp: step_def run_actions_ignores_auto_prompt split: prod.splits sum.splits)

lemma run_loop_ignores_auto_prompt:
  "run_loop (ag\<lparr>auto_prompt := b\<rparr>) iteration c calls w = run_loop ag iteration c calls w"
proof (induction ag iteration c calls w rule: run_loop.induct)
  case (1 ag iteration c calls w)
  obtain stop c' calls' w' where
    st: "step ag (c\<lparr>c_iteration := iteration + 1, c_current_time := Some (now w)\<rparr>) calls w
           = (stop, c', calls', w')"
    by (metis prod_cases4)
  have unfold_left: "run_loop (ag\<lparr>auto_prompt := b\<rparr>) iteration c calls w =
      (if stop then (iteration + 1, c', calls', w')
       else if iteration + 1 \<ge> max_iterations ag then (iteration + 1, c', calls', w')
       else run_loop (ag\<lparr>auto_prompt := b\<rparr>) (iteration + 1) c' calls'
              (if iteration_delay ag > 0 then sleep (iteration_delay ag) w' else w'))"
    by (subst run_loop.simps) (simp add: step_ignores_auto_prompt st)
  have unfold_right: "run_loop ag iteration c calls w =
      (if stop then (iteration + 1, c', calls', w')
       else if iteration + 1 \<ge> max_iterations ag then (iteration + 1, c', calls', w')
       else run_loop ag (iteration + 1) c' calls'
              (if iteration_delay ag > 0 then sleep (iteration_delay ag) w' else w'))"
    by (subst run_loop.simps) (simp add: st)
  show ?case
  proof (cases "stop \<or> iteration + 1 \<ge> max_iterations ag")
    case True
    then show ?thesis
      unfolding unfold_left unfold_right by auto
  next
    case False
    then have "run_loop (ag\<lparr>auto_prompt := b\<rparr>) (iteration + 1) c' calls'
              (if iteration_delay ag > 0 then sleep (iteration_delay ag) w' else w')
          = run_loop ag (iteration + 1) c' calls'
              (if iteration_delay ag > 0 then sleep (iteration_delay ag) w' else w')"
      using "1.IH" [OF st [symmetric]] by simp
    then show ?thesis
      unfolding unfold_left unfold_right by simp
  qed
qed

lemma lower_open_chrome: "lower ''Open Chrome'' = ''open chrome''"
  by code_simp

lemma lower_chrome: "lower ''chrome'' = ''chrome''"
  by code_simp

text \<open>
  Claim C8 does not hold of the code. \<^verbatim>\<open>run\<close> calls \<^verbatim>\<open>_auto_select_prompt\<close> only when the
  context has no \<^verbatim>\<open>prompt_name\<close>, and \<^verbatim>\<open>setup\<close>, which \<^verbatim>\<open>run\<close> calls first, always puts
  the default name there. So enabling automatic selection changes nothing (first
  statement): for the task \<^verbatim>\<open>Open Chrome\<close> and a mapping that sends the keyword
  \<^verbatim>\<open>chrome\<close> to the prompt \<^verbatim>\<open>browser\<close>, the context of the run still names the default
  prompt (second statement), although \<^verbatim>\<open>_auto_select_prompt\<close> itself, were it called,
  would select \<^verbatim>\<open>browser\<close> (third statement).
\<close>

theorem auto_prompt_is_never_applied:
  "run (ag\<lparr>auto_prompt := True\<rparr>) task w = run (ag\<lparr>auto_prompt := False\<rparr>) task w
   \<and> (case run (scripted_agent stop_done True [] 3) ''Open Chrome'' u of
         (summary, c', calls', u') \<Rightarrow> c_prompt_name c' = Some ''default'')
   \<and> fst (auto_select_prompt (scripted_agent stop_done True [] 3) ''Open Chrome'' c u)
       = (True, c\<lparr>c_prompt_name := Some ''browser''\<rparr>)"
proof -
  have same: "run (ag\<lparr>auto_prompt := True\<rparr>) task w = run (ag\<lparr>auto_prompt := False\<rparr>) task w"
    by (simp add: run_def setup_agent_def run_loop_ignores_auto_prompt Let_def)
  have stop_step: "step (scripted_agent stop_done True [] 3) c0 calls u0 =
      (True,
       c0\<lparr>c_history := c_history c0 @
          [HistoryItem stop_done
             \<lparr>r_success = True, r_timestamp = now u0, r_error = None,
              r_message = Some (JStr ''done'')\<rparr> (now u0)]\<rparr>,
       calls, u0)" for c0 calls and u0 :: "'b world_scheme"
    by (simp add: step_def scripted_agent_def normalize_def stop_done_def dict_get_def
          dict_get_default_def)
  have kept: "case run (scripted_agent stop_done True [] 3) ''Open Chrome'' u of
         (summary, c', calls', u') \<Rightarrow> c_prompt_name c' = Some ''default''"
    by (simp add: run_def setup_agent_def scripted_agent_fields Let_def
          run_loop_stop [OF stop_step])
  have selected:
    "fst (auto_select_prompt (scripted_agent stop_done True [] 3) ''Open Chrome'' c u)
       = (True, c\<lparr>c_prompt_name := Some ''browser''\<rparr>)"
    by (simp add: auto_select_prompt_def scripted_agent_def lower_open_chrome lower_chrome)
  from same kept selected show ?thesis by blast
qed

text \<open>The behaviour at a concrete world: the run for \<^verbatim>\<open>Open Chrome\<close> keeps the default prompt.\<close>

theorem auto_prompt_is_never_applied_witness:
  "c_prompt_name (fst (snd (run (scripted_agent stop_done True [] 3) ''Open Chrome'' world0)))
     = Some ''default''
   \<and> fst (auto_select_prompt (scripted_agent stop_done True [] 3) ''Open Chrome'' ctx0 world0)
       = (True, ctx0\<lparr>c_prompt_name := Some ''browser''\<rparr>)"
  using auto_prompt_is_never_applied
          [where ag = "scripted_agent stop_done True [] 3" and task = "''Open Chrome''"
             and w = world0 and u = world0 and c = ctx0]
  by (auto split: prod.splits)

end
